theory Spec2Isabelle
  imports Main "HOL-Library.Word"
begin

section \<open>The GenAIDeployment reconciler of splunk-operator\<close>

text \<open>
  A shallow embedding of the GenAIDeployment controller (package \<^verbatim>\<open>controllers\<close>, the
  file \<^verbatim>\<open>src/unnamed/part_000\<close>) and of \<^verbatim>\<open>CreateResource\<close> from
  \<^verbatim>\<open>pkg/splunk/util/util.go\<close>.

  Go structs are records, the cluster API client is a record of functions over a client
  state, every API call a function issues is returned in a list beside its result, and a
  Go panic is the left injection of a sum.  Record fields keep the Go field names; where
  two structs share a field name the field of the less central struct carries a prefix.
\<close>

subsection \<open>Kubernetes objects\<close>

type_synonym int32 = "32 word"

text \<open>
  Pointers.  \<^verbatim>\<open>DeploymentSpec.Replicas\<close> has type \<^verbatim>\<open>*int32\<close> and \<^verbatim>\<open>isEqual\<close>
  compares two such pointers with \<^verbatim>\<open>==\<close>, which in Go compares addresses.  A pointer is
  therefore an address together with the value stored there; \<open>None\<close> is \<^verbatim>\<open>nil\<close>.
  Addresses are named by the variable they belong to: the two descriptor fields whose
  address the constructors take, the cell that decoding an existing deployment allocates
  in each of the two reconcile functions, and any other cell.  No object outlives a pass,
  so within a pass different names are different variables.
\<close>

datatype addr =
    SaisService_Replicas_field
  | VectorDbService_Replicas_field
  | Sais_existing_Replicas
  | VectorDb_existing_Replicas
  | Heap nat

datatype 'a ptr = Ptr (ptr_addr: addr) (ptr_val: 'a)

definition ptr_eq :: "'a ptr option \<Rightarrow> 'a ptr option \<Rightarrow> bool" where
  "ptr_eq p q = (map_option ptr_addr p = map_option ptr_addr q)"

text \<open>
  The types of \<^verbatim>\<open>k8s.io/api\<close> that the reconciler only copies are kept opaque
  (a string stands for the whole value).  Pointers the code never compares
  (\<^verbatim>\<open>PodSpec.Affinity\<close>, \<^verbatim>\<open>WorkerGroupSpec.Replicas\<close>) keep the pointee only.
\<close>

type_synonym ResourceList = "(string \<times> string) list"

record ResourceRequirements =
  Limits :: ResourceList
  Requests :: ResourceList

type_synonym Affinity = string
type_synonym Toleration = string
type_synonym TopologySpreadConstraint = string
type_synonym Condition = string

record Volume =
  VolumeName :: string
  VolumeSource :: string

record VolumeMount =
  MountName :: string
  MountPath :: string

record OwnerReference =
  APIVersion :: string
  Kind :: string
  RefName :: string
  RefUID :: string
  Controller :: bool
  BlockOwnerDeletion :: bool

record ObjectMeta =
  Name :: string
  Namespace :: string
  UID :: string
  Labels :: "(string \<times> string) list"
  OwnerReferences :: "OwnerReference list"

record NamespacedName =
  KeyNamespace :: string
  KeyName :: string

record Container =
  ContainerName :: string
  Image :: string
  Resources :: ResourceRequirements
  VolumeMounts :: "VolumeMount list"

record PodSpec =
  Containers :: "Container list"
  Volumes :: "Volume list"
  SchedulerName :: string
  Affinity :: "Affinity option"
  Tolerations :: "Toleration list"
  TopologySpreadConstraints :: "TopologySpreadConstraint list"

record PodTemplateSpec =
  TemplateLabels :: "(string \<times> string) list"
  TemplateSpec :: PodSpec

record DeploymentSpec =
  Replicas :: "int32 ptr option"
  Selector :: "(string \<times> string) list option"
  Template :: PodTemplateSpec

record Deployment =
  DeploymentMeta :: ObjectMeta
  Spec :: DeploymentSpec

record HeadGroupSpec =
  RayStartParams :: "(string \<times> string) list"
  HeadTemplate :: PodTemplateSpec

record WorkerGroupSpec =
  GroupName :: string
  WorkerReplicas :: "int32 option"
  WorkerTemplate :: PodTemplateSpec

record RayClusterSpec =
  HeadGroupSpec :: HeadGroupSpec
  WorkerGroupSpecs :: "WorkerGroupSpec list"

record RayClusterObservedStatus =
  RayState :: string
  RayConditions :: "Condition list"

record RayCluster =
  RayMeta :: ObjectMeta
  RaySpec :: RayClusterSpec
  RayStatus :: RayClusterObservedStatus

subsection \<open>The descriptor\<close>

text \<open>
  \<^verbatim>\<open>enterpriseApi.GenAIDeployment\<close> is declared in \<^verbatim>\<open>api/v4\<close>, which is not among
  the sources; the records below hold exactly the fields the reconciler reads or writes.
\<close>

record HeadGroup =
  NumCpus :: string
  HeadResources :: ResourceRequirements

record WorkerGroup =
  WorkerResources :: ResourceRequirements

record RayServiceSpec =
  Enabled :: bool
  RayImage :: string
  HeadGroup :: HeadGroup
  WorkerGroup :: WorkerGroup
  RayReplicas :: int32

record SaisServiceSpec =
  SaisReplicas :: int32
  SaisImage :: string
  SaisResources :: ResourceRequirements
  SaisVolume :: Volume
  SaisSchedulerName :: string
  SaisAffinity :: Affinity
  SaisTolerations :: "Toleration list"

record VectorDbServiceSpec =
  VectorDbReplicas :: int32
  VectorDbImage :: string
  VectorDbResources :: ResourceRequirements
  VectorDbVolume :: Volume
  VectorDbAffinity :: Affinity
  VectorDbTolerations :: "Toleration list"
  VectorDbTopologySpreadConstraints :: "TopologySpreadConstraint list"

record GenAIDeploymentSpec =
  RayService :: RayServiceSpec
  SaisService :: SaisServiceSpec
  VectorDbService :: VectorDbServiceSpec

record RayClusterStatus =
  ClusterName :: string
  State :: string
  Conditions :: "Condition list"

record GenAIDeploymentStatus =
  RayClusterStatus :: RayClusterStatus

record GenAIDeployment =
  Meta :: ObjectMeta
  GenAISpec :: GenAIDeploymentSpec
  Status :: GenAIDeploymentStatus

subsection \<open>Errors and panics\<close>

datatype error =
    NotFound
  | AlreadyExists
  | Conflict
  | Other string
  | Wrapped string error

datatype panic = IndexOutOfRange

text \<open>
  \<^verbatim>\<open>apierrors.IsNotFound\<close> and \<^verbatim>\<open>apierrors.IsAlreadyExists\<close> look through
  \<^verbatim>\<open>%w\<close> wrapping; \<^verbatim>\<open>client.IgnoreNotFound\<close> turns a not-found error into \<^verbatim>\<open>nil\<close>.
\<close>

fun IsNotFound :: "error \<Rightarrow> bool" where
  "IsNotFound NotFound = True"
| "IsNotFound (Wrapped msg e) = IsNotFound e"
| "IsNotFound e = False"

fun IsAlreadyExists :: "error \<Rightarrow> bool" where
  "IsAlreadyExists AlreadyExists = True"
| "IsAlreadyExists (Wrapped msg e) = IsAlreadyExists e"
| "IsAlreadyExists e = False"

definition IgnoreNotFound :: "error \<Rightarrow> error option" where
  "IgnoreNotFound err = (if IsNotFound err then None else Some err)"

subsection \<open>The cluster API client\<close>

text \<open>
  \<^verbatim>\<open>client.Client\<close> of controller-runtime is outside the repository.  It is a parameter of
  the model: a record of functions over a client state \<open>'s\<close> (the cluster and whatever
  else decides the answers), one per object type and verb the reconciler uses.  A verb
  answers with an error or \<open>None\<close> (Go's \<^verbatim>\<open>nil\<close>); \<open>Get\<close> answers with the object.
\<close>

record 's Client =
  GetGenAIDeployment :: "NamespacedName \<Rightarrow> 's \<Rightarrow> (error + GenAIDeployment) \<times> 's"
  GetRayCluster :: "NamespacedName \<Rightarrow> 's \<Rightarrow> (error + RayCluster) \<times> 's"
  GetDeployment :: "NamespacedName \<Rightarrow> 's \<Rightarrow> (error + Deployment) \<times> 's"
  CreateRayCluster :: "RayCluster \<Rightarrow> 's \<Rightarrow> error option \<times> 's"
  CreateDeployment :: "Deployment \<Rightarrow> 's \<Rightarrow> error option \<times> 's"
  UpdateRayCluster :: "RayCluster \<Rightarrow> 's \<Rightarrow> error option \<times> 's"
  UpdateDeployment :: "Deployment \<Rightarrow> 's \<Rightarrow> error option \<times> 's"
  StatusUpdate :: "GenAIDeployment \<Rightarrow> 's \<Rightarrow> error option \<times> 's"

text \<open>
  \<^verbatim>\<open>runtime.Scheme\<close> maps Go types to group, version and kind.  The reconciler looks up
  one type only, the descriptor's, so the scheme is its entry for that type: the API
  version and the kind, or \<open>None\<close> when the type was never registered.
\<close>

record Scheme =
  GenAIDeploymentGVK :: "(string \<times> string) option"

record 's GenAIDeploymentReconciler =
  Client :: "'s Client"
  Scheme :: Scheme

text \<open>The calls a function issues, in order, with the object sent.\<close>

datatype kind = GenAIDeploymentKind | RayClusterKind | DeploymentKind

datatype object = RayClusterObject RayCluster | DeploymentObject Deployment

datatype call =
    Get_call kind NamespacedName
  | Create_call object
  | Update_call object
  | StatusUpdate_call GenAIDeployment

fun is_create :: "call \<Rightarrow> bool" where
  "is_create (Create_call obj) = True"
| "is_create c = False"

fun is_update :: "call \<Rightarrow> bool" where
  "is_update (Update_call obj) = True"
| "is_update c = False"

fun is_status_update :: "call \<Rightarrow> bool" where
  "is_status_update (StatusUpdate_call g) = True"
| "is_status_update c = False"

definition is_write :: "call \<Rightarrow> bool" where
  "is_write c = (is_create c \<or> is_update c \<or> is_status_update c)"

definition key_of :: "ObjectMeta \<Rightarrow> NamespacedName" where
  "key_of m = \<lparr>KeyNamespace = Namespace m, KeyName = Name m\<rparr>"

fun object_key :: "object \<Rightarrow> NamespacedName" where
  "object_key (RayClusterObject rc) = key_of (RayMeta rc)"
| "object_key (DeploymentObject d) = key_of (DeploymentMeta d)"

fun call_key :: "call \<Rightarrow> NamespacedName" where
  "call_key (Get_call k key) = key"
| "call_key (Create_call obj) = object_key obj"
| "call_key (Update_call obj) = object_key obj"
| "call_key (StatusUpdate_call g) = key_of (Meta g)"

subsection \<open>Ownership\<close>

text \<open>
  \<^verbatim>\<open>ctrl.SetControllerReference(owner, controlled, scheme)\<close> of controller-runtime, which
  is outside the repository, as its documentation and source describe it: the owner must
  not live in another namespace than the object, its type must be registered in the
  scheme, the object must not already be controlled by something else; then the
  reference (controller and blockOwnerDeletion set) replaces a reference to the same
  owner or is appended.  It changes the object in place and returns an error.
\<close>

definition group_of :: "string \<Rightarrow> string" where
  "group_of apiVersion =
     (if CHR ''/'' \<in> set apiVersion then takeWhile (\<lambda>c. c \<noteq> CHR ''/'') apiVersion else [])"

definition referSameObject :: "OwnerReference \<Rightarrow> OwnerReference \<Rightarrow> bool" where
  "referSameObject a b =
     (group_of (APIVersion a) = group_of (APIVersion b) \<and> Kind a = Kind b \<and> RefName a = RefName b)"

fun upsertOwnerRef :: "OwnerReference \<Rightarrow> OwnerReference list \<Rightarrow> OwnerReference list" where
  "upsertOwnerRef ref [] = [ref]"
| "upsertOwnerRef ref (x # xs) =
     (if referSameObject x ref then ref # xs else x # upsertOwnerRef ref xs)"

definition SetControllerReference ::
  "GenAIDeployment \<Rightarrow> ObjectMeta \<Rightarrow> Scheme \<Rightarrow> error option \<times> ObjectMeta" where
  "SetControllerReference owner controlled scheme =
     (if Namespace (Meta owner) \<noteq> [] \<and> Namespace controlled \<noteq> Namespace (Meta owner)
      then (Some (Other ''cross-namespace owner references are disallowed''), controlled)
      else case GenAIDeploymentGVK scheme of
        None \<Rightarrow> (Some (Other ''no kind is registered for the type''), controlled)
      | Some (apiVersion, kind) \<Rightarrow>
          (let ref = \<lparr>APIVersion = apiVersion, Kind = kind, RefName = Name (Meta owner),
                      RefUID = UID (Meta owner), Controller = True, BlockOwnerDeletion = True\<rparr>
           in case find Controller (OwnerReferences controlled) of
                None \<Rightarrow>
                  (None, controlled\<lparr>OwnerReferences := upsertOwnerRef ref (OwnerReferences controlled)\<rparr>)
              | Some existing \<Rightarrow>
                  if referSameObject existing ref
                  then (None, controlled\<lparr>OwnerReferences :=
                                upsertOwnerRef ref (OwnerReferences controlled)\<rparr>)
                  else (Some (Other ''object is already owned by another controller''), controlled)))"

subsection \<open>Desired-state constructors\<close>

definition constructRayCluster :: "'s GenAIDeploymentReconciler \<Rightarrow> GenAIDeployment \<Rightarrow> RayCluster" where
  "constructRayCluster r genAIDeployment =
     \<lparr>RayMeta = \<lparr>Name = Name (Meta genAIDeployment) @ ''-raycluster'',
                 Namespace = Namespace (Meta genAIDeployment),
                 UID = [], Labels = [], OwnerReferences = []\<rparr>,
      RaySpec = \<lparr>
        HeadGroupSpec = \<lparr>
          RayStartParams = [(''num-cpus'', NumCpus (HeadGroup (RayService (GenAISpec genAIDeployment))))],
          HeadTemplate = \<lparr>
            TemplateLabels = [],
            TemplateSpec = \<lparr>
              Containers = [\<lparr>ContainerName = ''ray-head'',
                             Image = RayImage (RayService (GenAISpec genAIDeployment)),
                             Resources = HeadResources (HeadGroup (RayService (GenAISpec genAIDeployment))),
                             VolumeMounts = []\<rparr>],
              Volumes = [], SchedulerName = [], Affinity = None, Tolerations = [],
              TopologySpreadConstraints = []\<rparr>\<rparr>\<rparr>,
        WorkerGroupSpecs = [\<lparr>
          GroupName = ''ray-worker'',
          WorkerReplicas = Some (RayReplicas (RayService (GenAISpec genAIDeployment))),
          WorkerTemplate = \<lparr>
            TemplateLabels = [],
            TemplateSpec = \<lparr>
              Containers = [\<lparr>ContainerName = ''ray-worker'',
                             Image = RayImage (RayService (GenAISpec genAIDeployment)),
                             Resources = WorkerResources (WorkerGroup (RayService (GenAISpec genAIDeployment))),
                             VolumeMounts = []\<rparr>],
              Volumes = [], SchedulerName = [], Affinity = None, Tolerations = [],
              TopologySpreadConstraints = []\<rparr>\<rparr>\<rparr>]\<rparr>,
      RayStatus = \<lparr>RayState = [], RayConditions = []\<rparr>\<rparr>"

definition constructSaisServiceDeployment ::
  "'s GenAIDeploymentReconciler \<Rightarrow> GenAIDeployment \<Rightarrow> Deployment" where
  "constructSaisServiceDeployment r genAIDeployment =
     (let labels = [(''app'', ''sais-service''), (''deployment'', Name (Meta genAIDeployment))];
          deployment = \<lparr>
            DeploymentMeta = \<lparr>Name = Name (Meta genAIDeployment) @ ''-sais-service'',
                              Namespace = Namespace (Meta genAIDeployment),
                              UID = [], Labels = [], OwnerReferences = []\<rparr>,
            Spec = \<lparr>
              Replicas = Some (Ptr SaisService_Replicas_field
                                   (SaisReplicas (SaisService (GenAISpec genAIDeployment)))),
              Selector = Some labels,
              Template = \<lparr>
                TemplateLabels = labels,
                TemplateSpec = \<lparr>
                  Containers = [\<lparr>ContainerName = ''sais-service-container'',
                                 Image = SaisImage (SaisService (GenAISpec genAIDeployment)),
                                 Resources = SaisResources (SaisService (GenAISpec genAIDeployment)),
                                 VolumeMounts = [\<lparr>MountName = VolumeName (SaisVolume (SaisService (GenAISpec genAIDeployment))),
                                                   MountPath = ''/data''\<rparr>]\<rparr>],
                  Volumes = [SaisVolume (SaisService (GenAISpec genAIDeployment))],
                  SchedulerName = SaisSchedulerName (SaisService (GenAISpec genAIDeployment)),
                  Affinity = Some (SaisAffinity (SaisService (GenAISpec genAIDeployment))),
                  Tolerations = SaisTolerations (SaisService (GenAISpec genAIDeployment)),
                  TopologySpreadConstraints = []\<rparr>\<rparr>\<rparr>\<rparr>
      in deployment\<lparr>DeploymentMeta :=
           snd (SetControllerReference genAIDeployment (DeploymentMeta deployment) (Scheme r))\<rparr>)"

definition constructVectorDbDeployment ::
  "'s GenAIDeploymentReconciler \<Rightarrow> GenAIDeployment \<Rightarrow> Deployment" where
  "constructVectorDbDeployment r genAIDeployment =
     (let labels = [(''app'', ''vectordb-service''), (''deployment'', Name (Meta genAIDeployment))];
          deployment = \<lparr>
            DeploymentMeta = \<lparr>Name = Name (Meta genAIDeployment) @ ''-vectordb-service'',
                              Namespace = Namespace (Meta genAIDeployment),
                              UID = [], Labels = [], OwnerReferences = []\<rparr>,
            Spec = \<lparr>
              Replicas = Some (Ptr VectorDbService_Replicas_field
                                   (VectorDbReplicas (VectorDbService (GenAISpec genAIDeployment)))),
              Selector = Some labels,
              Template = \<lparr>
                TemplateLabels = labels,
                TemplateSpec = \<lparr>
                  Containers = [\<lparr>ContainerName = ''vectordb-container'',
                                 Image = VectorDbImage (VectorDbService (GenAISpec genAIDeployment)),
                                 Resources = VectorDbResources (VectorDbService (GenAISpec genAIDeployment)),
                                 VolumeMounts = [\<lparr>MountName = VolumeName (VectorDbVolume (VectorDbService (GenAISpec genAIDeployment))),
                                                   MountPath = ''/data''\<rparr>]\<rparr>],
                  Volumes = [VectorDbVolume (VectorDbService (GenAISpec genAIDeployment))],
                  SchedulerName = [],
                  Affinity = Some (VectorDbAffinity (VectorDbService (GenAISpec genAIDeployment))),
                  Tolerations = VectorDbTolerations (VectorDbService (GenAISpec genAIDeployment)),
                  TopologySpreadConstraints =
                    VectorDbTopologySpreadConstraints (VectorDbService (GenAISpec genAIDeployment))\<rparr>\<rparr>\<rparr>\<rparr>
      in deployment\<lparr>DeploymentMeta :=
           snd (SetControllerReference genAIDeployment (DeploymentMeta deployment) (Scheme r))\<rparr>)"

subsection \<open>The equality evaluator\<close>

text \<open>
  \<^verbatim>\<open>isEqual\<close> is \<^verbatim>\<open>a == b && c[0].Image == d[0].Image\<close>.  The left conjunct compares
  the two \<^verbatim>\<open>*int32\<close> pointers; \<^verbatim>\<open>&&\<close> evaluates its right operand only when the left one
  is true; indexing an empty slice panics, the desired deployment's slice first.
\<close>

definition isEqual :: "Deployment \<Rightarrow> Deployment \<Rightarrow> panic + bool" where
  "isEqual desired existing =
     (if ptr_eq (Replicas (Spec desired)) (Replicas (Spec existing)) then
        (case Containers (TemplateSpec (Template (Spec desired))) of
           [] \<Rightarrow> Inl IndexOutOfRange
         | dc # ds \<Rightarrow>
             (case Containers (TemplateSpec (Template (Spec existing))) of
                [] \<Rightarrow> Inl IndexOutOfRange
              | ec # es \<Rightarrow> Inr (Image dc = Image ec)))
      else Inr False)"

subsection \<open>Reconciling one deployment\<close>

text \<open>
  \<^verbatim>\<open>r.Get(ctx, key, existingDeployment)\<close> fills the fresh object
  \<^verbatim>\<open>&appsv1.Deployment{}\<close> from the server's answer.  A \<^verbatim>\<open>Replicas\<close> that is not
  \<^verbatim>\<open>nil\<close> then points to an \<^verbatim>\<open>int32\<close> that decoding the answer (or the deep copy out
  of the client's cache) allocated: whatever the client answers, the pointer of the filled
  object is a cell of its own and never the address of a field of the descriptor.
\<close>

definition decoded_at :: "addr \<Rightarrow> Deployment \<Rightarrow> Deployment" where
  "decoded_at a d =
     d\<lparr>Spec := (Spec d)\<lparr>Replicas := map_option (\<lambda>p. Ptr a (ptr_val p)) (Replicas (Spec d))\<rparr>\<rparr>"

text \<open>
  \<^verbatim>\<open>reconcileSaisServiceDeployment\<close> and \<^verbatim>\<open>reconcileVectorDbDeployment\<close> have the same
  body after their first statement, up to the two error messages; \<open>reconcileDeployment\<close>
  is that body, given the desired deployment, the cell the existing one is decoded into
  and the messages.
\<close>

definition reconcileDeployment ::
  "'s GenAIDeploymentReconciler \<Rightarrow> Deployment \<Rightarrow> addr \<Rightarrow> string \<Rightarrow> string \<Rightarrow> 's
     \<Rightarrow> (panic + error option) \<times> call list \<times> 's" where
  "reconcileDeployment r desiredDeployment cell createMsg updateMsg s =
     (let key = \<lparr>KeyNamespace = Namespace (DeploymentMeta desiredDeployment),
                 KeyName = Name (DeploymentMeta desiredDeployment)\<rparr>
      in case GetDeployment (Client r) key s of
        (Inl err, s1) \<Rightarrow>
          (case IgnoreNotFound err of
             Some e \<Rightarrow> (Inr (Some err), [Get_call DeploymentKind key], s1)
           | None \<Rightarrow>
               (case CreateDeployment (Client r) desiredDeployment s1 of
                  (Some err', s2) \<Rightarrow>
                    (Inr (Some (Wrapped createMsg err')),
                     [Get_call DeploymentKind key, Create_call (DeploymentObject desiredDeployment)], s2)
                | (None, s2) \<Rightarrow>
                    (Inr None,
                     [Get_call DeploymentKind key, Create_call (DeploymentObject desiredDeployment)], s2)))
      | (Inr answer, s1) \<Rightarrow>
          (let existingDeployment = decoded_at cell answer
           in case isEqual desiredDeployment existingDeployment of
                Inl p \<Rightarrow> (Inl p, [Get_call DeploymentKind key], s1)
              | Inr True \<Rightarrow> (Inr None, [Get_call DeploymentKind key], s1)
              | Inr False \<Rightarrow>
                  (let existingDeployment' = existingDeployment\<lparr>Spec := Spec desiredDeployment\<rparr>
                   in case UpdateDeployment (Client r) existingDeployment' s1 of
                        (Some err', s2) \<Rightarrow>
                          (Inr (Some (Wrapped updateMsg err')),
                           [Get_call DeploymentKind key,
                            Update_call (DeploymentObject existingDeployment')], s2)
                      | (None, s2) \<Rightarrow>
                          (Inr None,
                           [Get_call DeploymentKind key,
                            Update_call (DeploymentObject existingDeployment')], s2))))"

definition reconcileSaisServiceDeployment ::
  "'s GenAIDeploymentReconciler \<Rightarrow> GenAIDeployment \<Rightarrow> 's
     \<Rightarrow> (panic + error option) \<times> call list \<times> 's" where
  "reconcileSaisServiceDeployment r genAIDeployment s =
     reconcileDeployment r (constructSaisServiceDeployment r genAIDeployment)
       Sais_existing_Replicas
       ''failed to create new Deployment'' ''failed to update Deployment'' s"

definition reconcileVectorDbDeployment ::
  "'s GenAIDeploymentReconciler \<Rightarrow> GenAIDeployment \<Rightarrow> 's
     \<Rightarrow> (panic + error option) \<times> call list \<times> 's" where
  "reconcileVectorDbDeployment r genAIDeployment s =
     reconcileDeployment r (constructVectorDbDeployment r genAIDeployment)
       VectorDb_existing_Replicas
       ''failed to create new VectorDb Deployment'' ''failed to update VectorDb Deployment'' s"

subsection \<open>The compute cluster\<close>

definition updateRayCluster ::
  "'s GenAIDeploymentReconciler \<Rightarrow> RayCluster \<Rightarrow> GenAIDeployment \<Rightarrow> RayCluster" where
  "updateRayCluster r existingCluster genAIDeployment = existingCluster"

text \<open>
  \<^verbatim>\<open>updateRayClusterStatus\<close> writes the summary into the descriptor it was given and
  sends it; the error of the status update is logged and dropped.  It returns nothing in
  Go: the model returns the changed descriptor, the call and the client state.
\<close>

definition updateRayClusterStatus ::
  "'s GenAIDeploymentReconciler \<Rightarrow> GenAIDeployment \<Rightarrow> RayCluster \<Rightarrow> 's
     \<Rightarrow> GenAIDeployment \<times> call list \<times> 's" where
  "updateRayClusterStatus r genAIDeployment rayCluster s =
     (let genAIDeployment' = genAIDeployment\<lparr>Status := (Status genAIDeployment)\<lparr>RayClusterStatus :=
            \<lparr>ClusterName = Name (RayMeta rayCluster),
             State = RayState (RayStatus rayCluster),
             Conditions = RayConditions (RayStatus rayCluster)\<rparr>\<rparr>\<rparr>
      in case StatusUpdate (Client r) genAIDeployment' s of
           (err, s1) \<Rightarrow> (genAIDeployment', [StatusUpdate_call genAIDeployment'], s1))"

text \<open>The zero value \<^verbatim>\<open>&rayv1.RayCluster{}\<close>, which a failed \<^verbatim>\<open>Get\<close> leaves untouched.\<close>

definition empty_RayCluster :: RayCluster where
  "empty_RayCluster =
     \<lparr>RayMeta = \<lparr>Name = [], Namespace = [], UID = [], Labels = [], OwnerReferences = []\<rparr>,
      RaySpec = \<lparr>
        HeadGroupSpec = \<lparr>RayStartParams = [],
          HeadTemplate = \<lparr>TemplateLabels = [],
            TemplateSpec = \<lparr>Containers = [], Volumes = [], SchedulerName = [], Affinity = None,
                             Tolerations = [], TopologySpreadConstraints = []\<rparr>\<rparr>\<rparr>,
        WorkerGroupSpecs = []\<rparr>,
      RayStatus = \<lparr>RayState = [], RayConditions = []\<rparr>\<rparr>"

text \<open>
  Lines 62 to 78 of \<^verbatim>\<open>Reconcile\<close>: fetch the compute cluster; on any error of the fetch
  create it, otherwise send the fetched object back as an update.  The result is the
  error that ends the pass, if any, and the \<^verbatim>\<open>rayCluster\<close> variable as the status step
  will read it.
\<close>

definition createOrUpdateRayCluster ::
  "'s GenAIDeploymentReconciler \<Rightarrow> NamespacedName \<Rightarrow> GenAIDeployment \<Rightarrow> 's
     \<Rightarrow> error option \<times> call list \<times> RayCluster \<times> 's" where
  "createOrUpdateRayCluster r req genAIDeployment s =
     (let key = \<lparr>KeyNamespace = KeyNamespace req, KeyName = KeyName req @ ''-raycluster''\<rparr>
      in case GetRayCluster (Client r) key s of
        (Inl err, s1) \<Rightarrow>
          (let newRayCluster = constructRayCluster r genAIDeployment
           in case CreateRayCluster (Client r) newRayCluster s1 of
                (err', s2) \<Rightarrow>
                  (err', [Get_call RayClusterKind key, Create_call (RayClusterObject newRayCluster)],
                   empty_RayCluster, s2))
      | (Inr rayCluster, s1) \<Rightarrow>
          (let updatedRayCluster = updateRayCluster r rayCluster genAIDeployment
           in case UpdateRayCluster (Client r) updatedRayCluster s1 of
                (err', s2) \<Rightarrow>
                  (err', [Get_call RayClusterKind key, Update_call (RayClusterObject updatedRayCluster)],
                   rayCluster, s2)))"

subsection \<open>The pass\<close>

text \<open>
  Lines 84 to 96 of \<^verbatim>\<open>Reconcile\<close>: the two service deployments, the second only when the
  first returned no error.
\<close>

definition reconcileServices ::
  "'s GenAIDeploymentReconciler \<Rightarrow> GenAIDeployment \<Rightarrow> 's
     \<Rightarrow> (panic + error option) \<times> call list \<times> 's" where
  "reconcileServices r genAIDeployment s =
     (case reconcileSaisServiceDeployment r genAIDeployment s of
        (Inr None, cs1, s1) \<Rightarrow>
          (case reconcileVectorDbDeployment r genAIDeployment s1 of
             (res, cs2, s2) \<Rightarrow> (res, cs1 @ cs2, s2))
      | (res, cs1, s1) \<Rightarrow> (res, cs1, s1))"

text \<open>
  \<^verbatim>\<open>Reconcile\<close> returns \<^verbatim>\<open>(ctrl.Result{}, err)\<close> on every path, so its result is the
  error (\<open>Inr None\<close> is success) or a panic, with the calls issued and the client state.
\<close>

definition Reconcile ::
  "'s GenAIDeploymentReconciler \<Rightarrow> NamespacedName \<Rightarrow> 's
     \<Rightarrow> (panic + error option) \<times> call list \<times> 's" where
  "Reconcile r req s =
     (case GetGenAIDeployment (Client r) req s of
        (Inl err, s1) \<Rightarrow> (Inr (IgnoreNotFound err), [Get_call GenAIDeploymentKind req], s1)
      | (Inr genAIDeployment, s1) \<Rightarrow>
          (if Enabled (RayService (GenAISpec genAIDeployment)) then
             (case createOrUpdateRayCluster r req genAIDeployment s1 of
                (Some err, cs1, rayCluster, s2) \<Rightarrow>
                  (Inr (Some err), Get_call GenAIDeploymentKind req # cs1, s2)
              | (None, cs1, rayCluster, s2) \<Rightarrow>
                  (case updateRayClusterStatus r genAIDeployment rayCluster s2 of
                     (genAIDeployment', cs2, s3) \<Rightarrow>
                       (case reconcileServices r genAIDeployment' s3 of
                          (res, cs3, s4) \<Rightarrow>
                            (res, Get_call GenAIDeploymentKind req # cs1 @ cs2 @ cs3, s4))))
           else
             (case reconcileServices r genAIDeployment s1 of
                (res, cs3, s4) \<Rightarrow> (res, Get_call GenAIDeploymentKind req # cs3, s4))))"

text \<open>
  Lines 45 to 82 of \<^verbatim>\<open>Reconcile\<close> on their own: the descriptor, the calls issued so far and
  the client state with which the pass enters the two service steps, or \<open>None\<close> when the
  pass returns before them.
\<close>

definition reaches_services ::
  "'s GenAIDeploymentReconciler \<Rightarrow> NamespacedName \<Rightarrow> 's
     \<Rightarrow> (GenAIDeployment \<times> call list \<times> 's) option" where
  "reaches_services r req s =
     (case GetGenAIDeployment (Client r) req s of
        (Inl err, s1) \<Rightarrow> None
      | (Inr genAIDeployment, s1) \<Rightarrow>
          (if Enabled (RayService (GenAISpec genAIDeployment)) then
             (case createOrUpdateRayCluster r req genAIDeployment s1 of
                (Some err, cs1, rayCluster, s2) \<Rightarrow> None
              | (None, cs1, rayCluster, s2) \<Rightarrow>
                  (case updateRayClusterStatus r genAIDeployment rayCluster s2 of
                     (genAIDeployment', cs2, s3) \<Rightarrow>
                       Some (genAIDeployment', Get_call GenAIDeploymentKind req # cs1 @ cs2, s3)))
           else Some (genAIDeployment, [Get_call GenAIDeploymentKind req], s1)))"

subsection \<open>CreateResource\<close>

text \<open>
  \<^verbatim>\<open>util.CreateResource(client, obj)\<close>: the client's create, with an already-exists error
  turned into success.  The reconciler above does not call it.
\<close>

fun Create :: "'s Client \<Rightarrow> object \<Rightarrow> 's \<Rightarrow> error option \<times> 's" where
  "Create c (RayClusterObject rc) s = CreateRayCluster c rc s"
| "Create c (DeploymentObject d) s = CreateDeployment c d s"

definition CreateResource :: "'s Client \<Rightarrow> object \<Rightarrow> 's \<Rightarrow> error option \<times> 's" where
  "CreateResource client obj s =
     (case Create client obj s of
        (Some err, s1) \<Rightarrow> if \<not> IsAlreadyExists err then (Some err, s1) else (None, s1)
      | (None, s1) \<Rightarrow> (None, s1))"

subsection \<open>A cluster with no other writer\<close>

text \<open>
  Modelled from the spec: the State Store Client of section 6 (\<^verbatim>\<open>get\<close> answers the
  object or NotFound, \<^verbatim>\<open>create\<close> answers ok or AlreadyExists, \<^verbatim>\<open>update\<close> and
  \<^verbatim>\<open>updateStatus\<close> answer ok or an error), for a cluster that nothing else writes to and
  that never fails: objects are stored by namespace and name, a create of a stored key
  answers AlreadyExists, an update or status update of a key that is not stored answers
  NotFound, and a status update replaces the status of the stored descriptor only.
\<close>

record Store =
  genAIDeployments :: "NamespacedName \<rightharpoonup> GenAIDeployment"
  rayClusters :: "NamespacedName \<rightharpoonup> RayCluster"
  deployments :: "NamespacedName \<rightharpoonup> Deployment"

definition store_get :: "(NamespacedName \<rightharpoonup> 'a) \<Rightarrow> NamespacedName \<Rightarrow> error + 'a" where
  "store_get m key = (case m key of None \<Rightarrow> Inl NotFound | Some obj \<Rightarrow> Inr obj)"

definition store_client :: "Store Client" where
  "store_client =
     \<lparr>GetGenAIDeployment = (\<lambda>key s. (store_get (genAIDeployments s) key, s)),
      GetRayCluster = (\<lambda>key s. (store_get (rayClusters s) key, s)),
      GetDeployment = (\<lambda>key s. (store_get (deployments s) key, s)),
      CreateRayCluster = (\<lambda>obj s.
        case rayClusters s (key_of (RayMeta obj)) of
          Some old \<Rightarrow> (Some AlreadyExists, s)
        | None \<Rightarrow> (None, s\<lparr>rayClusters := (rayClusters s)(key_of (RayMeta obj) \<mapsto> obj)\<rparr>)),
      CreateDeployment = (\<lambda>obj s.
        case deployments s (key_of (DeploymentMeta obj)) of
          Some old \<Rightarrow> (Some AlreadyExists, s)
        | None \<Rightarrow> (None, s\<lparr>deployments := (deployments s)(key_of (DeploymentMeta obj) \<mapsto> obj)\<rparr>)),
      UpdateRayCluster = (\<lambda>obj s.
        case rayClusters s (key_of (RayMeta obj)) of
          None \<Rightarrow> (Some NotFound, s)
        | Some old \<Rightarrow> (None, s\<lparr>rayClusters := (rayClusters s)(key_of (RayMeta obj) \<mapsto> obj)\<rparr>)),
      UpdateDeployment = (\<lambda>obj s.
        case deployments s (key_of (DeploymentMeta obj)) of
          None \<Rightarrow> (Some NotFound, s)
        | Some old \<Rightarrow> (None, s\<lparr>deployments := (deployments s)(key_of (DeploymentMeta obj) \<mapsto> obj)\<rparr>)),
      StatusUpdate = (\<lambda>obj s.
        case genAIDeployments s (key_of (Meta obj)) of
          None \<Rightarrow> (Some NotFound, s)
        | Some old \<Rightarrow>
            (None, s\<lparr>genAIDeployments :=
                        (genAIDeployments s)(key_of (Meta obj) \<mapsto> old\<lparr>Status := Status obj\<rparr>)\<rparr>))\<rparr>"

definition store_reconciler :: "Store GenAIDeploymentReconciler" where
  "store_reconciler =
     \<lparr>Client = store_client,
      Scheme = \<lparr>GenAIDeploymentGVK = Some (''enterprise.splunk.com/v4'', ''GenAIDeployment'')\<rparr>\<rparr>"

subsection \<open>Concrete inputs\<close>

definition no_resources :: ResourceRequirements where
  "no_resources = \<lparr>Limits = [], Requests = []\<rparr>"

definition demo :: GenAIDeployment where
  "demo =
     \<lparr>Meta = \<lparr>Name = ''x'', Namespace = ''ns'', UID = ''u1'', Labels = [], OwnerReferences = []\<rparr>,
      GenAISpec = \<lparr>
        RayService = \<lparr>Enabled = True, RayImage = ''ray:1'',
                      HeadGroup = \<lparr>NumCpus = ''1'', HeadResources = no_resources\<rparr>,
                      WorkerGroup = \<lparr>WorkerResources = no_resources\<rparr>,
                      RayReplicas = 2\<rparr>,
        SaisService = \<lparr>SaisReplicas = 1, SaisImage = ''sais:1'', SaisResources = no_resources,
                       SaisVolume = \<lparr>VolumeName = ''data'', VolumeSource = ''emptyDir''\<rparr>,
                       SaisSchedulerName = [], SaisAffinity = [], SaisTolerations = []\<rparr>,
        VectorDbService = \<lparr>VectorDbReplicas = 1, VectorDbImage = ''vdb:1'',
                           VectorDbResources = no_resources,
                           VectorDbVolume = \<lparr>VolumeName = ''data'', VolumeSource = ''emptyDir''\<rparr>,
                           VectorDbAffinity = [], VectorDbTolerations = [],
                           VectorDbTopologySpreadConstraints = []\<rparr>\<rparr>,
      Status = \<lparr>RayClusterStatus = \<lparr>ClusterName = [], State = [], Conditions = []\<rparr>\<rparr>\<rparr>"

definition demo_key :: NamespacedName where
  "demo_key = \<lparr>KeyNamespace = ''ns'', KeyName = ''x''\<rparr>"

definition demo_store :: Store where
  "demo_store =
     \<lparr>genAIDeployments = [demo_key \<mapsto> demo], rayClusters = Map.empty, deployments = Map.empty\<rparr>"

definition empty_store :: Store where
  "empty_store = \<lparr>genAIDeployments = Map.empty, rayClusters = Map.empty, deployments = Map.empty\<rparr>"

text \<open>The descriptor \<open>demo\<close> with the compute cluster switched off, alone in a cluster.\<close>

definition plain_store :: Store where
  "plain_store =
     \<lparr>genAIDeployments =
        [demo_key \<mapsto> demo\<lparr>GenAISpec := (GenAISpec demo)\<lparr>RayService :=
                                 (RayService (GenAISpec demo))\<lparr>Enabled := False\<rparr>\<rparr>\<rparr>],
      rayClusters = Map.empty, deployments = Map.empty\<rparr>"

text \<open>The cluster a first pass over \<open>demo_store\<close> leaves, and the pass that follows it.\<close>

definition settled_store :: Store where
  "settled_store = snd (snd (Reconcile store_reconciler demo_key demo_store))"

definition second_pass :: "(panic + error option) \<times> call list \<times> Store" where
  "second_pass = Reconcile store_reconciler demo_key settled_store"

text \<open>
  A client that lost a race: every create is answered AlreadyExists, as when another
  writer created the object between the reconciler's get and its create.
\<close>

definition raced_reconciler :: "Store GenAIDeploymentReconciler" where
  "raced_reconciler =
     store_reconciler\<lparr>Client := store_client\<lparr>
        CreateRayCluster := (\<lambda>obj s. (Some AlreadyExists, s)),
        CreateDeployment := (\<lambda>obj s. (Some AlreadyExists, s))\<rparr>\<rparr>"

text \<open>A client whose status updates all fail.\<close>

definition status_failing_reconciler :: "Store GenAIDeploymentReconciler" where
  "status_failing_reconciler =
     store_reconciler\<lparr>Client := store_client\<lparr>
        StatusUpdate := (\<lambda>obj s. (Some (Other ''status update refused''), s))\<rparr>\<rparr>"

definition demo_sais :: Deployment where
  "demo_sais = constructSaisServiceDeployment store_reconciler demo"

definition demo_vectordb :: Deployment where
  "demo_vectordb = constructVectorDbDeployment store_reconciler demo"

text \<open>A deployment with its pod specification changed and nothing else.\<close>

definition with_PodSpec :: "(PodSpec \<Rightarrow> PodSpec) \<Rightarrow> Deployment \<Rightarrow> Deployment" where
  "with_PodSpec f d =
     d\<lparr>Spec := (Spec d)\<lparr>Template := (Template (Spec d))\<lparr>TemplateSpec :=
          f (TemplateSpec (Template (Spec d)))\<rparr>\<rparr>\<rparr>"

text \<open>
  The service-A deployment of \<open>demo\<close> as a pass would decode it from a cluster where it
  was scaled to five replicas and has lost its containers.
\<close>

definition scaled_without_containers :: Deployment where
  "scaled_without_containers =
     decoded_at Sais_existing_Replicas
       (with_PodSpec (\<lambda>p. p\<lparr>Containers := []\<rparr>)
          (demo_sais\<lparr>Spec := (Spec demo_sais)\<lparr>Replicas := Some (Ptr (Heap 0) 5)\<rparr>\<rparr>))"



text \<open>
  A client that refuses the creates \<open>refuse\<close> names, with the error it names, and answers
  like \<open>store_client\<close> otherwise.
\<close>

definition refusing_reconciler :: "(object \<Rightarrow> error option) \<Rightarrow> Store GenAIDeploymentReconciler" where
  "refusing_reconciler refuse =
     store_reconciler\<lparr>Client := store_client\<lparr>
        CreateRayCluster := (\<lambda>obj s.
          case refuse (RayClusterObject obj) of
            Some e \<Rightarrow> (Some e, s)
          | None \<Rightarrow> CreateRayCluster store_client obj s),
        CreateDeployment := (\<lambda>obj s.
          case refuse (DeploymentObject obj) of
            Some e \<Rightarrow> (Some e, s)
          | None \<Rightarrow> CreateDeployment store_client obj s)\<rparr>\<rparr>"

definition refuse_all :: "object \<Rightarrow> error option" where
  "refuse_all obj = Some (Other ''quota exceeded'')"

definition refuse_vectordb :: "object \<Rightarrow> error option" where
  "refuse_vectordb obj =
     (if KeyName (object_key obj) = ''x-vectordb-service'' then Some (Other ''quota exceeded'')
      else None)"

text \<open>The descriptor stored in \<open>plain_store\<close>.\<close>

definition plain_demo :: GenAIDeployment where
  "plain_demo = demo\<lparr>GenAISpec := (GenAISpec demo)\<lparr>RayService :=
                        (RayService (GenAISpec demo))\<lparr>Enabled := False\<rparr>\<rparr>\<rparr>"

fun call_verb :: "call \<Rightarrow> string" where
  "call_verb (Get_call k key) = ''get''"
| "call_verb (Create_call obj) = ''create''"
| "call_verb (Update_call obj) = ''update''"
| "call_verb (StatusUpdate_call g) = ''status-update''"

fun created_owners :: "call \<Rightarrow> string list" where
  "created_owners (Create_call (RayClusterObject rc)) = map RefName (OwnerReferences (RayMeta rc))"
| "created_owners (Create_call (DeploymentObject d)) = map RefName (OwnerReferences (DeploymentMeta d))"
| "created_owners c = []"

section \<open>Properties\<close>

lemmas pass_defs =
  Reconcile_def createOrUpdateRayCluster_def updateRayClusterStatus_def updateRayCluster_def
  reconcileServices_def reconcileSaisServiceDeployment_def reconcileVectorDbDeployment_def
  reconcileDeployment_def constructRayCluster_def constructSaisServiceDeployment_def
  constructVectorDbDeployment_def SetControllerReference_def isEqual_def decoded_at_def
  ptr_eq_def IgnoreNotFound_def key_of_def Let_def empty_RayCluster_def

lemmas store_defs =
  store_reconciler_def store_client_def store_get_def demo_def demo_key_def demo_store_def
  no_resources_def empty_store_def plain_store_def raced_reconciler_def
  status_failing_reconciler_def settled_store_def second_pass_def demo_sais_def
  demo_vectordb_def with_PodSpec_def scaled_without_containers_def

subsection \<open>Pointers, names and the evaluator\<close>

lemma isEqual_decoded_fresh:
  assumes "Replicas (Spec desired) = Some (Ptr a v)" and "a \<noteq> cell"
  shows "isEqual desired (decoded_at cell answer) = Inr False"
  using assms
  by (cases "Replicas (Spec answer)") (simp_all add: isEqual_def decoded_at_def ptr_eq_def)

lemma SetControllerReference_identity:
  "Name (snd (SetControllerReference owner controlled scheme)) = Name controlled"
  "Namespace (snd (SetControllerReference owner controlled scheme)) = Namespace controlled"
  by (simp_all add: SetControllerReference_def Let_def split: option.splits prod.splits)

lemma constructSais_Replicas:
  "Replicas (Spec (constructSaisServiceDeployment r g)) =
     Some (Ptr SaisService_Replicas_field (SaisReplicas (SaisService (GenAISpec g))))"
  by (simp add: constructSaisServiceDeployment_def Let_def)

lemma constructVectorDb_Replicas:
  "Replicas (Spec (constructVectorDbDeployment r g)) =
     Some (Ptr VectorDbService_Replicas_field (VectorDbReplicas (VectorDbService (GenAISpec g))))"
  by (simp add: constructVectorDbDeployment_def Let_def)

lemma constructSais_meta:
  "Name (DeploymentMeta (constructSaisServiceDeployment r g)) = Name (Meta g) @ ''-sais-service''"
  "Namespace (DeploymentMeta (constructSaisServiceDeployment r g)) = Namespace (Meta g)"
  by (simp_all add: constructSaisServiceDeployment_def Let_def SetControllerReference_identity)

lemma constructVectorDb_meta:
  "Name (DeploymentMeta (constructVectorDbDeployment r g)) = Name (Meta g) @ ''-vectordb-service''"
  "Namespace (DeploymentMeta (constructVectorDbDeployment r g)) = Namespace (Meta g)"
  by (simp_all add: constructVectorDbDeployment_def Let_def SetControllerReference_identity)

text \<open>
  Inside a pass the desired deployment's \<^verbatim>\<open>Replicas\<close> points into the descriptor and the
  existing one's into a decoded cell, so \<^verbatim>\<open>isEqual\<close> answers false there and never
  reaches the container lists: the two reconcile functions do not panic.
\<close>

lemma reconcileSaisServiceDeployment_no_panic:
  "fst (reconcileSaisServiceDeployment r g s) \<noteq> Inl p"
  by (simp add: reconcileSaisServiceDeployment_def reconcileDeployment_def Let_def
        isEqual_decoded_fresh[OF constructSais_Replicas]
        split: prod.splits sum.splits option.splits)

lemma reconcileVectorDbDeployment_no_panic:
  "fst (reconcileVectorDbDeployment r g s) \<noteq> Inl p"
  by (simp add: reconcileVectorDbDeployment_def reconcileDeployment_def Let_def
        isEqual_decoded_fresh[OF constructVectorDb_Replicas]
        split: prod.splits sum.splits option.splits)

lemma reconcileServices_no_panic: "fst (reconcileServices r g s) \<noteq> Inl p"
proof -
  obtain res1 cs1 s1 where a: "reconcileSaisServiceDeployment r g s = (res1, cs1, s1)"
    by (cases "reconcileSaisServiceDeployment r g s") auto
  obtain res2 cs2 s2 where b: "reconcileVectorDbDeployment r g s1 = (res2, cs2, s2)"
    by (cases "reconcileVectorDbDeployment r g s1") auto
  from reconcileSaisServiceDeployment_no_panic[of r g s p] a have "res1 \<noteq> Inl p" by simp
  moreover from reconcileVectorDbDeployment_no_panic[of r g s1 p] b have "res2 \<noteq> Inl p" by simp
  ultimately show ?thesis
    using a b by (auto simp: reconcileServices_def split: sum.splits option.splits)
qed

lemma Reconcile_no_panic: "fst (Reconcile r req s) \<noteq> Inl p"
proof -
  obtain a s1 where get: "GetGenAIDeployment (Client r) req s = (a, s1)"
    by (cases "GetGenAIDeployment (Client r) req s") auto
  show ?thesis
  proof (cases a)
    case (Inl err)
    with get show ?thesis by (simp add: Reconcile_def)
  next
    case (Inr g)
    obtain e cs1 rc s2 where cu: "createOrUpdateRayCluster r req g s1 = (e, cs1, rc, s2)"
      by (cases "createOrUpdateRayCluster r req g s1") auto
    obtain g' cs2 s3 where st: "updateRayClusterStatus r g rc s2 = (g', cs2, s3)"
      by (cases "updateRayClusterStatus r g rc s2") auto
    from get Inr cu st reconcileServices_no_panic[of r g s1 p] reconcileServices_no_panic[of r g' s3 p]
    show ?thesis
      by (cases e) (auto simp: Reconcile_def split: prod.splits)
  qed
qed

subsection \<open>The descriptor is gone\<close>

text \<open>
  Claim C6.  When the fetch of the parent descriptor answers not-found, the pass returns
  success and the only call it issued is that fetch: no get, create, update or status
  update of any managed resource.
\<close>

theorem descriptor_not_found_noop:
  assumes "GetGenAIDeployment (Client r) req s = (Inl err, s1)" and "IsNotFound err"
  shows "Reconcile r req s = (Inr None, [Get_call GenAIDeploymentKind req], s1)"
  using assms by (simp add: Reconcile_def IgnoreNotFound_def)

text \<open>Claim C6, witness: a pass over the empty cluster.\<close>

theorem descriptor_not_found_noop_witness:
  "GetGenAIDeployment (Client store_reconciler) demo_key empty_store = (Inl NotFound, empty_store) \<and>
   IsNotFound NotFound \<and>
   Reconcile store_reconciler demo_key empty_store =
     (Inr None, [Get_call GenAIDeploymentKind demo_key], empty_store)"
  using descriptor_not_found_noop[of store_reconciler demo_key empty_store NotFound empty_store]
  by (simp add: store_reconciler_def store_client_def store_get_def empty_store_def)

subsection \<open>What the evaluator compares\<close>







subsection \<open>When the evaluator panics\<close>

text \<open>
  Claim C10 as stated fails: an existing deployment scaled to five replicas, with an
  empty container list, as a pass decodes it, is outside the claimed precondition, and
  \<^verbatim>\<open>isEqual\<close> is defined on it.  The comparison of the \<^verbatim>\<open>Replicas\<close> fields is false, so
  the container lists are never indexed.
\<close>

theorem isEqual_defined_on_empty_containers:
  "Containers (TemplateSpec (Template (Spec scaled_without_containers))) = [] \<and>
   map_option ptr_val (Replicas (Spec scaled_without_containers)) = Some 5 \<and>
   isEqual demo_sais scaled_without_containers = Inr False"
  by (simp add: pass_defs store_defs)

text \<open>
  Claim C10, amended.  \<^verbatim>\<open>isEqual\<close> indexes the first container of both deployments, with
  no length check, only when its first conjunct, the comparison of the two \<^verbatim>\<open>Replicas\<close>
  fields, is true.  It panics with index out of range exactly when that comparison is
  true and one of the two container lists is empty, and returns a value on every other
  input; there is an input with a non-empty desired list and an empty existing list on
  which it panics.
\<close>

theorem isEqual_panics_iff:
  "(isEqual desired existing = Inl IndexOutOfRange \<longleftrightarrow>
      ptr_eq (Replicas (Spec desired)) (Replicas (Spec existing)) \<and>
      (Containers (TemplateSpec (Template (Spec desired))) = [] \<or>
       Containers (TemplateSpec (Template (Spec existing))) = [])) \<and>
   (\<exists>d e. Containers (TemplateSpec (Template (Spec d))) \<noteq> [] \<and>
          Containers (TemplateSpec (Template (Spec e))) = [] \<and>
          isEqual d e = Inl IndexOutOfRange)"
proof
  show "isEqual desired existing = Inl IndexOutOfRange \<longleftrightarrow>
      ptr_eq (Replicas (Spec desired)) (Replicas (Spec existing)) \<and>
      (Containers (TemplateSpec (Template (Spec desired))) = [] \<or>
       Containers (TemplateSpec (Template (Spec existing))) = [])"
    by (simp add: isEqual_def split: list.splits)
next
  have "Containers (TemplateSpec (Template (Spec demo_sais))) \<noteq> [] \<and>
        Containers (TemplateSpec (Template (Spec
           (with_PodSpec (\<lambda>p. p\<lparr>Containers := []\<rparr>) demo_sais)))) = [] \<and>
        isEqual demo_sais (with_PodSpec (\<lambda>p. p\<lparr>Containers := []\<rparr>) demo_sais)
          = Inl IndexOutOfRange"
    by (simp add: pass_defs store_defs)
  then show "\<exists>d e. Containers (TemplateSpec (Template (Spec d))) \<noteq> [] \<and>
          Containers (TemplateSpec (Template (Spec e))) = [] \<and>
          isEqual d e = Inl IndexOutOfRange"
    by blast
qed

subsection \<open>Names\<close>

lemma reconcileDeployment_calls_key:
  assumes "\<And>d s1. GetDeployment (Client r) (key_of (DeploymentMeta desired)) s = (Inr d, s1)
             \<Longrightarrow> key_of (DeploymentMeta d) = key_of (DeploymentMeta desired)"
  shows "\<forall>c \<in> set (fst (snd (reconcileDeployment r desired cell cm um s))).
           call_key c = key_of (DeploymentMeta desired)"
proof (cases "GetDeployment (Client r) (key_of (DeploymentMeta desired)) s")
  case (Pair a s1)
  show ?thesis
  proof (cases a)
    case (Inl err)
    with Pair show ?thesis
      by (auto simp: reconcileDeployment_def Let_def key_of_def split: option.splits prod.splits)
  next
    case (Inr d)
    with Pair assms have "key_of (DeploymentMeta d) = key_of (DeploymentMeta desired)" by simp
    with Pair Inr show ?thesis
      by (auto simp: reconcileDeployment_def Let_def key_of_def decoded_at_def
               split: option.splits prod.splits sum.splits bool.splits)
  qed
qed

text \<open>
  Claim C7.  For a descriptor named \<open>x\<close> in namespace \<open>ns\<close> the service-A deployment is
  constructed with name \<open>x-sais-service\<close> in \<open>ns\<close> and the service-B deployment with name
  \<open>x-vectordb-service\<close> in \<open>ns\<close>, and every call the two reconcile functions issue (the
  get, and the create or the update) addresses that name and namespace.  For the update,
  which sends back the fetched object, this rests on the client answering a get with an
  object of the name and namespace asked for.
\<close>

theorem service_names:
  assumes "Name (Meta g) = x" and "Namespace (Meta g) = ns"
    and "\<And>d s1. GetDeployment (Client r) \<lparr>KeyNamespace = ns, KeyName = x @ ''-sais-service''\<rparr> s = (Inr d, s1)
           \<Longrightarrow> key_of (DeploymentMeta d) = \<lparr>KeyNamespace = ns, KeyName = x @ ''-sais-service''\<rparr>"
    and "\<And>d t1. GetDeployment (Client r) \<lparr>KeyNamespace = ns, KeyName = x @ ''-vectordb-service''\<rparr> t = (Inr d, t1)
           \<Longrightarrow> key_of (DeploymentMeta d) = \<lparr>KeyNamespace = ns, KeyName = x @ ''-vectordb-service''\<rparr>"
  shows "key_of (DeploymentMeta (constructSaisServiceDeployment r g)) =
           \<lparr>KeyNamespace = ns, KeyName = x @ ''-sais-service''\<rparr> \<and>
         key_of (DeploymentMeta (constructVectorDbDeployment r g)) =
           \<lparr>KeyNamespace = ns, KeyName = x @ ''-vectordb-service''\<rparr> \<and>
         (\<forall>c \<in> set (fst (snd (reconcileSaisServiceDeployment r g s))).
            call_key c = \<lparr>KeyNamespace = ns, KeyName = x @ ''-sais-service''\<rparr>) \<and>
         (\<forall>c \<in> set (fst (snd (reconcileVectorDbDeployment r g t))).
            call_key c = \<lparr>KeyNamespace = ns, KeyName = x @ ''-vectordb-service''\<rparr>)"
proof -
  have a: "key_of (DeploymentMeta (constructSaisServiceDeployment r g)) =
             \<lparr>KeyNamespace = ns, KeyName = x @ ''-sais-service''\<rparr>"
    using assms(1,2) by (simp add: key_of_def constructSais_meta)
  have b: "key_of (DeploymentMeta (constructVectorDbDeployment r g)) =
             \<lparr>KeyNamespace = ns, KeyName = x @ ''-vectordb-service''\<rparr>"
    using assms(1,2) by (simp add: key_of_def constructVectorDb_meta)
  have c: "\<forall>c \<in> set (fst (snd (reconcileSaisServiceDeployment r g s))).
            call_key c = \<lparr>KeyNamespace = ns, KeyName = x @ ''-sais-service''\<rparr>"
    unfolding reconcileSaisServiceDeployment_def a[symmetric]
    by (rule reconcileDeployment_calls_key) (use assms(3) a in simp)
  have d: "\<forall>c \<in> set (fst (snd (reconcileVectorDbDeployment r g t))).
            call_key c = \<lparr>KeyNamespace = ns, KeyName = x @ ''-vectordb-service''\<rparr>"
    unfolding reconcileVectorDbDeployment_def b[symmetric]
    by (rule reconcileDeployment_calls_key) (use assms(4) b in simp)
  from a b c d show ?thesis by simp
qed

text \<open>
  Claim C7, witness: the descriptor \<open>x\<close> in \<open>ns\<close> over the cluster its first pass left, where
  both deployments exist and are updated.
\<close>

theorem service_names_witness:
  "key_of (DeploymentMeta demo_sais) = \<lparr>KeyNamespace = ''ns'', KeyName = ''x-sais-service''\<rparr> \<and>
   key_of (DeploymentMeta demo_vectordb) = \<lparr>KeyNamespace = ''ns'', KeyName = ''x-vectordb-service''\<rparr> \<and>
   map (\<lambda>c. (call_verb c, call_key c))
       (fst (snd (reconcileSaisServiceDeployment store_reconciler demo settled_store))) =
     [(''get'', \<lparr>KeyNamespace = ''ns'', KeyName = ''x-sais-service''\<rparr>),
      (''update'', \<lparr>KeyNamespace = ''ns'', KeyName = ''x-sais-service''\<rparr>)] \<and>
   map (\<lambda>c. (call_verb c, call_key c))
       (fst (snd (reconcileVectorDbDeployment store_reconciler demo settled_store))) =
     [(''get'', \<lparr>KeyNamespace = ''ns'', KeyName = ''x-vectordb-service''\<rparr>),
      (''update'', \<lparr>KeyNamespace = ''ns'', KeyName = ''x-vectordb-service''\<rparr>)]"
proof -
  have n: "Name (Meta demo) = ''x''" "Namespace (Meta demo) = ''ns''"
    by (simp_all add: demo_def)
  have g1: "key_of (DeploymentMeta d) = \<lparr>KeyNamespace = ''ns'', KeyName = ''x'' @ ''-sais-service''\<rparr>"
    if "GetDeployment (Client store_reconciler)
          \<lparr>KeyNamespace = ''ns'', KeyName = ''x'' @ ''-sais-service''\<rparr> settled_store = (Inr d, s1)"
    for d s1
    using that by (auto simp: pass_defs store_defs split: if_splits)
  have g2: "key_of (DeploymentMeta d) = \<lparr>KeyNamespace = ''ns'', KeyName = ''x'' @ ''-vectordb-service''\<rparr>"
    if "GetDeployment (Client store_reconciler)
          \<lparr>KeyNamespace = ''ns'', KeyName = ''x'' @ ''-vectordb-service''\<rparr> settled_store = (Inr d, t1)"
    for d t1
    using that by (auto simp: pass_defs store_defs split: if_splits)
  from service_names[OF n g1 g2]
  show ?thesis
    by (simp add: pass_defs store_defs)
qed

subsection \<open>Updating a deployment\<close>

lemma reconcileDeployment_update:
  assumes "GetDeployment (Client r) (key_of (DeploymentMeta desired)) s = (Inr answer, s1)"
    and "isEqual desired (decoded_at cell answer) = Inr False"
  shows "\<exists>updated. fst (snd (reconcileDeployment r desired cell cm um s)) =
           [Get_call DeploymentKind (key_of (DeploymentMeta desired)),
            Update_call (DeploymentObject updated)] \<and>
         DeploymentMeta updated = DeploymentMeta answer \<and> Spec updated = Spec desired"
  using assms
  by (auto simp: reconcileDeployment_def Let_def key_of_def decoded_at_def
           split: option.splits prod.splits)

text \<open>
  Claim C9.  When the service-A or the service-B deployment exists and the evaluator
  reports divergence, the calls of the reconcile function are the get and one update, and
  the object of the update has the metadata of the fetched object unchanged (name,
  namespace and owner references among it) and the specification of the desired one.
\<close>

theorem update_keeps_identity:
  "(GetDeployment (Client r) (key_of (DeploymentMeta (constructSaisServiceDeployment r g))) s
      = (Inr answer, s1) \<and>
    isEqual (constructSaisServiceDeployment r g) (decoded_at Sais_existing_Replicas answer) = Inr False
    \<longrightarrow> (\<exists>updated.
           fst (snd (reconcileSaisServiceDeployment r g s)) =
             [Get_call DeploymentKind (key_of (DeploymentMeta (constructSaisServiceDeployment r g))),
              Update_call (DeploymentObject updated)] \<and>
           DeploymentMeta updated = DeploymentMeta answer \<and>
           Spec updated = Spec (constructSaisServiceDeployment r g))) \<and>
   (GetDeployment (Client r) (key_of (DeploymentMeta (constructVectorDbDeployment r g))) t
      = (Inr answer', t1) \<and>
    isEqual (constructVectorDbDeployment r g) (decoded_at VectorDb_existing_Replicas answer') = Inr False
    \<longrightarrow> (\<exists>updated.
           fst (snd (reconcileVectorDbDeployment r g t)) =
             [Get_call DeploymentKind (key_of (DeploymentMeta (constructVectorDbDeployment r g))),
              Update_call (DeploymentObject updated)] \<and>
           DeploymentMeta updated = DeploymentMeta answer' \<and>
           Spec updated = Spec (constructVectorDbDeployment r g)))"
  unfolding reconcileSaisServiceDeployment_def reconcileVectorDbDeployment_def
  using reconcileDeployment_update[of r "constructSaisServiceDeployment r g" s answer s1
          Sais_existing_Replicas]
        reconcileDeployment_update[of r "constructVectorDbDeployment r g" t answer' t1
          VectorDb_existing_Replicas]
  by blast

text \<open>
  Claim C9, witness: over the cluster the first pass of \<open>demo\<close> left, both deployments
  exist, the evaluator reports divergence, and each update carries the stored metadata.
\<close>

theorem update_keeps_identity_witness:
  "GetDeployment (Client store_reconciler) (key_of (DeploymentMeta demo_sais)) settled_store
     = (Inr demo_sais, settled_store) \<and>
   isEqual demo_sais (decoded_at Sais_existing_Replicas demo_sais) = Inr False \<and>
   (\<exists>updated.
      fst (snd (reconcileSaisServiceDeployment store_reconciler demo settled_store)) =
        [Get_call DeploymentKind (key_of (DeploymentMeta demo_sais)),
         Update_call (DeploymentObject updated)] \<and>
      DeploymentMeta updated = DeploymentMeta demo_sais \<and> Spec updated = Spec demo_sais) \<and>
   GetDeployment (Client store_reconciler) (key_of (DeploymentMeta demo_vectordb)) settled_store
     = (Inr demo_vectordb, settled_store) \<and>
   isEqual demo_vectordb (decoded_at VectorDb_existing_Replicas demo_vectordb) = Inr False \<and>
   (\<exists>updated.
      fst (snd (reconcileVectorDbDeployment store_reconciler demo settled_store)) =
        [Get_call DeploymentKind (key_of (DeploymentMeta demo_vectordb)),
         Update_call (DeploymentObject updated)] \<and>
      DeploymentMeta updated = DeploymentMeta demo_vectordb \<and> Spec updated = Spec demo_vectordb)"
proof -
  have a: "GetDeployment (Client store_reconciler) (key_of (DeploymentMeta demo_sais)) settled_store
     = (Inr demo_sais, settled_store)"
    by (simp add: pass_defs store_defs)
  have b: "isEqual demo_sais (decoded_at Sais_existing_Replicas demo_sais) = Inr False"
    by (simp add: pass_defs store_defs)
  have c: "GetDeployment (Client store_reconciler) (key_of (DeploymentMeta demo_vectordb)) settled_store
     = (Inr demo_vectordb, settled_store)"
    by (simp add: pass_defs store_defs)
  have d: "isEqual demo_vectordb (decoded_at VectorDb_existing_Replicas demo_vectordb) = Inr False"
    by (simp add: pass_defs store_defs)
  from update_keeps_identity[of store_reconciler demo settled_store demo_sais settled_store
         settled_store demo_vectordb settled_store] a b c d
  show ?thesis
    unfolding demo_sais_def demo_vectordb_def by blast
qed

subsection \<open>A failed status update\<close>

lemma reconcileServices_first_call:
  "\<exists>cs. fst (snd (reconcileServices r g s)) =
     Get_call DeploymentKind
       \<lparr>KeyNamespace = Namespace (Meta g), KeyName = Name (Meta g) @ ''-sais-service''\<rparr> # cs"
  by (auto simp: reconcileServices_def reconcileSaisServiceDeployment_def reconcileDeployment_def
        Let_def constructSais_meta split: prod.splits sum.splits option.splits bool.splits)

text \<open>
  Claim C8.  When the pass reaches the status step (descriptor fetched, compute cluster
  enabled, cluster created or updated without error) and the status update fails, the
  pass goes on: its next call is the get of the service-A deployment, and its result and
  its remaining calls are those of the service steps, run on the descriptor with the
  aggregated status.  The error of the status update appears nowhere in the result.
\<close>

theorem status_failure_not_fatal:
  assumes "GetGenAIDeployment (Client r) req s = (Inr g, s1)"
    and "Enabled (RayService (GenAISpec g))"
    and "createOrUpdateRayCluster r req g s1 = (None, cs1, rayCluster, s2)"
    and "g' = g\<lparr>Status := (Status g)\<lparr>RayClusterStatus :=
            \<lparr>ClusterName = Name (RayMeta rayCluster),
             State = RayState (RayStatus rayCluster),
             Conditions = RayConditions (RayStatus rayCluster)\<rparr>\<rparr>\<rparr>"
    and "StatusUpdate (Client r) g' s2 = (Some err, s3)"
  shows "\<exists>res cs3 s4.
           reconcileServices r g' s3 =
             (res, Get_call DeploymentKind \<lparr>KeyNamespace = Namespace (Meta g),
                                            KeyName = Name (Meta g) @ ''-sais-service''\<rparr> # cs3, s4) \<and>
           Reconcile r req s =
             (res, Get_call GenAIDeploymentKind req # cs1 @ StatusUpdate_call g' #
                   Get_call DeploymentKind \<lparr>KeyNamespace = Namespace (Meta g),
                                            KeyName = Name (Meta g) @ ''-sais-service''\<rparr> # cs3, s4)"
proof -
  obtain res cs s4 where rs: "reconcileServices r g' s3 = (res, cs, s4)"
    by (cases "reconcileServices r g' s3") auto
  from reconcileServices_first_call[of r g' s3] rs assms(4)
  obtain cs3 where cs: "cs = Get_call DeploymentKind \<lparr>KeyNamespace = Namespace (Meta g),
                                            KeyName = Name (Meta g) @ ''-sais-service''\<rparr> # cs3"
    by auto
  have "Reconcile r req s =
          (res, Get_call GenAIDeploymentKind req # cs1 @ StatusUpdate_call g' # cs, s4)"
    using assms rs by (simp add: Reconcile_def updateRayClusterStatus_def Let_def)
  with rs cs show ?thesis by simp
qed

text \<open>
  Claim C8, witness: a first pass for \<open>demo\<close> with a client that refuses every status
  update.  The pass succeeds and creates both deployments after the refused call.
\<close>

theorem status_failure_not_fatal_witness:
  "StatusUpdate (Client status_failing_reconciler)
     (demo\<lparr>Status := (Status demo)\<lparr>RayClusterStatus :=
            \<lparr>ClusterName = Name (RayMeta empty_RayCluster),
             State = RayState (RayStatus empty_RayCluster),
             Conditions = RayConditions (RayStatus empty_RayCluster)\<rparr>\<rparr>\<rparr>)
     (snd (snd (snd (createOrUpdateRayCluster status_failing_reconciler demo_key demo demo_store))))
     = (Some (Other ''status update refused''),
        snd (snd (snd (createOrUpdateRayCluster status_failing_reconciler demo_key demo demo_store)))) \<and>
   fst (Reconcile status_failing_reconciler demo_key demo_store) = Inr None \<and>
   map call_verb (fst (snd (Reconcile status_failing_reconciler demo_key demo_store))) =
     [''get'', ''get'', ''create'', ''status-update'', ''get'', ''create'', ''get'', ''create'']"
proof -
  let ?cu = "createOrUpdateRayCluster status_failing_reconciler demo_key demo demo_store"
  let ?g' = "demo\<lparr>Status := (Status demo)\<lparr>RayClusterStatus :=
            \<lparr>ClusterName = Name (RayMeta empty_RayCluster),
             State = RayState (RayStatus empty_RayCluster),
             Conditions = RayConditions (RayStatus empty_RayCluster)\<rparr>\<rparr>\<rparr>"
  have h1: "GetGenAIDeployment (Client status_failing_reconciler) demo_key demo_store
              = (Inr demo, demo_store)"
    by (simp add: pass_defs store_defs)
  have h2: "Enabled (RayService (GenAISpec demo))"
    by (simp add: demo_def)
  have h3: "?cu = (None, fst (snd ?cu), empty_RayCluster, snd (snd (snd ?cu)))"
    by (simp add: createOrUpdateRayCluster_def Let_def store_defs key_of_def
          constructRayCluster_def prod_eq_iff)
  have h5: "StatusUpdate (Client status_failing_reconciler) ?g' (snd (snd (snd ?cu)))
              = (Some (Other ''status update refused''), snd (snd (snd ?cu)))"
    by (simp add: status_failing_reconciler_def)
  from status_failure_not_fatal[OF h1 h2 h3 refl h5] h5
  show ?thesis
    by (simp add: pass_defs store_defs)
qed

subsection \<open>A create that fails\<close>

text \<open>
  Claim C4 as stated fails: with a client that answers AlreadyExists to the create of the
  compute cluster, the pass for \<open>demo\<close> stops at that create and returns the error.
\<close>

theorem create_AlreadyExists_fails_pass:
  "fst (Reconcile raced_reconciler demo_key demo_store) = Inr (Some AlreadyExists) \<and>
   map call_verb (fst (snd (Reconcile raced_reconciler demo_key demo_store))) =
     [''get'', ''get'', ''create'']"
  by (simp add: pass_defs store_defs)

lemma Reconcile_after_reaches_services:
  assumes "reaches_services r req s = Some (g', pre, t)"
  shows "Reconcile r req s =
           (case reconcileServices r g' t of (res, cs, s') \<Rightarrow> (res, pre @ cs, s'))"
  using assms
  by (auto simp: reaches_services_def Reconcile_def
        split: prod.splits sum.splits option.splits if_splits)

lemma reconcileDeployment_create_fails:
  assumes "GetDeployment (Client r) (key_of (DeploymentMeta desired)) s = (Inl err, s1)"
    and "IsNotFound err"
    and "CreateDeployment (Client r) desired s1 = (Some e, s2)"
  shows "reconcileDeployment r desired cell cm um s =
           (Inr (Some (Wrapped cm e)),
            [Get_call DeploymentKind (key_of (DeploymentMeta desired)),
             Create_call (DeploymentObject desired)], s2)"
  using assms by (simp add: reconcileDeployment_def Let_def key_of_def IgnoreNotFound_def)

text \<open>
  Claim C4, amended.  \<^verbatim>\<open>util.CreateResource\<close> treats an AlreadyExists answer to create as
  success and returns every other error, but the reconciliation pass does not use it: it
  calls the client's create directly.  When a create of the pass fails, with
  AlreadyExists as with any other error \<open>e\<close>, the pass ends with that call and returns the
  failure: \<open>e\<close> itself for the compute cluster, \<open>e\<close> wrapped in the message
  \<^verbatim>\<open>failed to create new Deployment\<close> for service A and in
  \<^verbatim>\<open>failed to create new VectorDb Deployment\<close> for service B.
\<close>

theorem create_failure_returned:
  "(GetGenAIDeployment (Client r) req s = (Inr g, s1) \<and>
    Enabled (RayService (GenAISpec g)) \<and>
    GetRayCluster (Client r)
      \<lparr>KeyNamespace = KeyNamespace req, KeyName = KeyName req @ ''-raycluster''\<rparr> s1 = (Inl err, s2) \<and>
    CreateRayCluster (Client r) (constructRayCluster r g) s2 = (Some e, s3)
    \<longrightarrow> Reconcile r req s =
          (Inr (Some e),
           [Get_call GenAIDeploymentKind req,
            Get_call RayClusterKind
              \<lparr>KeyNamespace = KeyNamespace req, KeyName = KeyName req @ ''-raycluster''\<rparr>,
            Create_call (RayClusterObject (constructRayCluster r g))], s3)) \<and>
   (reaches_services r req s = Some (g', pre, t) \<and>
    GetDeployment (Client r) (key_of (DeploymentMeta (constructSaisServiceDeployment r g'))) t
      = (Inl err, t1) \<and>
    IsNotFound err \<and>
    CreateDeployment (Client r) (constructSaisServiceDeployment r g') t1 = (Some e, t2)
    \<longrightarrow> Reconcile r req s =
          (Inr (Some (Wrapped ''failed to create new Deployment'' e)),
           pre @ [Get_call DeploymentKind (key_of (DeploymentMeta (constructSaisServiceDeployment r g'))),
                  Create_call (DeploymentObject (constructSaisServiceDeployment r g'))], t2)) \<and>
   (reaches_services r req s = Some (g', pre, t) \<and>
    reconcileSaisServiceDeployment r g' t = (Inr None, cs, u) \<and>
    GetDeployment (Client r) (key_of (DeploymentMeta (constructVectorDbDeployment r g'))) u
      = (Inl err, u1) \<and>
    IsNotFound err \<and>
    CreateDeployment (Client r) (constructVectorDbDeployment r g') u1 = (Some e, u2)
    \<longrightarrow> Reconcile r req s =
          (Inr (Some (Wrapped ''failed to create new VectorDb Deployment'' e)),
           pre @ cs @
             [Get_call DeploymentKind (key_of (DeploymentMeta (constructVectorDbDeployment r g'))),
              Create_call (DeploymentObject (constructVectorDbDeployment r g'))], u2)) \<and>
   (Create c obj s0 = (Some e, s0')
    \<longrightarrow> CreateResource c obj s0 = (if IsAlreadyExists e then None else Some e, s0'))"
proof (intro conjI impI)
  assume "GetGenAIDeployment (Client r) req s = (Inr g, s1) \<and>
    Enabled (RayService (GenAISpec g)) \<and>
    GetRayCluster (Client r)
      \<lparr>KeyNamespace = KeyNamespace req, KeyName = KeyName req @ ''-raycluster''\<rparr> s1 = (Inl err, s2) \<and>
    CreateRayCluster (Client r) (constructRayCluster r g) s2 = (Some e, s3)"
  then show "Reconcile r req s =
          (Inr (Some e),
           [Get_call GenAIDeploymentKind req,
            Get_call RayClusterKind
              \<lparr>KeyNamespace = KeyNamespace req, KeyName = KeyName req @ ''-raycluster''\<rparr>,
            Create_call (RayClusterObject (constructRayCluster r g))], s3)"
    by (simp add: Reconcile_def createOrUpdateRayCluster_def Let_def)
next
  assume a: "reaches_services r req s = Some (g', pre, t) \<and>
    GetDeployment (Client r) (key_of (DeploymentMeta (constructSaisServiceDeployment r g'))) t
      = (Inl err, t1) \<and>
    IsNotFound err \<and>
    CreateDeployment (Client r) (constructSaisServiceDeployment r g') t1 = (Some e, t2)"
  then have "reconcileSaisServiceDeployment r g' t =
      (Inr (Some (Wrapped ''failed to create new Deployment'' e)),
       [Get_call DeploymentKind (key_of (DeploymentMeta (constructSaisServiceDeployment r g'))),
        Create_call (DeploymentObject (constructSaisServiceDeployment r g'))], t2)"
    unfolding reconcileSaisServiceDeployment_def
    by (intro reconcileDeployment_create_fails[of _ _ _ err t1 e]) blast+
  with a show "Reconcile r req s =
          (Inr (Some (Wrapped ''failed to create new Deployment'' e)),
           pre @ [Get_call DeploymentKind (key_of (DeploymentMeta (constructSaisServiceDeployment r g'))),
                  Create_call (DeploymentObject (constructSaisServiceDeployment r g'))], t2)"
    by (simp add: Reconcile_after_reaches_services reconcileServices_def)
next
  assume a: "reaches_services r req s = Some (g', pre, t) \<and>
    reconcileSaisServiceDeployment r g' t = (Inr None, cs, u) \<and>
    GetDeployment (Client r) (key_of (DeploymentMeta (constructVectorDbDeployment r g'))) u
      = (Inl err, u1) \<and>
    IsNotFound err \<and>
    CreateDeployment (Client r) (constructVectorDbDeployment r g') u1 = (Some e, u2)"
  then have "reconcileVectorDbDeployment r g' u =
      (Inr (Some (Wrapped ''failed to create new VectorDb Deployment'' e)),
       [Get_call DeploymentKind (key_of (DeploymentMeta (constructVectorDbDeployment r g'))),
        Create_call (DeploymentObject (constructVectorDbDeployment r g'))], u2)"
    unfolding reconcileVectorDbDeployment_def
    by (intro reconcileDeployment_create_fails[of _ _ _ err u1 e]) blast+
  with a show "Reconcile r req s =
          (Inr (Some (Wrapped ''failed to create new VectorDb Deployment'' e)),
           pre @ cs @
             [Get_call DeploymentKind (key_of (DeploymentMeta (constructVectorDbDeployment r g'))),
              Create_call (DeploymentObject (constructVectorDbDeployment r g'))], u2)"
    by (simp add: Reconcile_after_reaches_services reconcileServices_def)
next
  assume "Create c obj s0 = (Some e, s0')"
  then show "CreateResource c obj s0 = (if IsAlreadyExists e then None else Some e, s0')"
    by (simp add: CreateResource_def)
qed

text \<open>
  Claim C4, witness: a create refused for want of quota ends the pass of \<open>demo\<close> at the
  compute cluster and the pass of the descriptor without compute cluster at service B;
  a create answered AlreadyExists ends the latter at service A; \<^verbatim>\<open>CreateResource\<close>
  turns the AlreadyExists into success and returns the refusal.
\<close>

theorem create_failure_returned_witness:
  "Reconcile (refusing_reconciler refuse_all) demo_key demo_store =
     (Inr (Some (Other ''quota exceeded'')),
      [Get_call GenAIDeploymentKind demo_key,
       Get_call RayClusterKind \<lparr>KeyNamespace = ''ns'', KeyName = ''x-raycluster''\<rparr>,
       Create_call (RayClusterObject (constructRayCluster (refusing_reconciler refuse_all) demo))],
      demo_store) \<and>
   fst (Reconcile raced_reconciler demo_key plain_store) =
     Inr (Some (Wrapped ''failed to create new Deployment'' AlreadyExists)) \<and>
   map call_verb (fst (snd (Reconcile raced_reconciler demo_key plain_store))) =
     [''get'', ''get'', ''create''] \<and>
   fst (Reconcile (refusing_reconciler refuse_vectordb) demo_key plain_store) =
     Inr (Some (Wrapped ''failed to create new VectorDb Deployment'' (Other ''quota exceeded''))) \<and>
   map call_verb (fst (snd (Reconcile (refusing_reconciler refuse_vectordb) demo_key plain_store))) =
     [''get'', ''get'', ''create'', ''get'', ''create''] \<and>
   CreateResource (Client raced_reconciler) (DeploymentObject demo_sais) plain_store =
     (None, plain_store) \<and>
   CreateResource (Client (refusing_reconciler refuse_all)) (DeploymentObject demo_sais) plain_store =
     (Some (Other ''quota exceeded''), plain_store)"
proof -
  let ?q = "refusing_reconciler refuse_all"
  let ?v = "refusing_reconciler refuse_vectordb"
  let ?sais = "reconcileSaisServiceDeployment ?v plain_demo plain_store"
  have ray:
    "GetGenAIDeployment (Client ?q) demo_key demo_store = (Inr demo, demo_store) \<and>
     Enabled (RayService (GenAISpec demo)) \<and>
     GetRayCluster (Client ?q)
       \<lparr>KeyNamespace = KeyNamespace demo_key, KeyName = KeyName demo_key @ ''-raycluster''\<rparr> demo_store
       = (Inl NotFound, demo_store) \<and>
     CreateRayCluster (Client ?q) (constructRayCluster ?q demo) demo_store
       = (Some (Other ''quota exceeded''), demo_store)"
    by (simp add: refusing_reconciler_def refuse_all_def store_defs)
  have sais:
    "reaches_services raced_reconciler demo_key plain_store
       = Some (plain_demo, [Get_call GenAIDeploymentKind demo_key], plain_store) \<and>
     GetDeployment (Client raced_reconciler)
       (key_of (DeploymentMeta (constructSaisServiceDeployment raced_reconciler plain_demo))) plain_store
       = (Inl NotFound, plain_store) \<and>
     IsNotFound NotFound \<and>
     CreateDeployment (Client raced_reconciler)
       (constructSaisServiceDeployment raced_reconciler plain_demo) plain_store
       = (Some AlreadyExists, plain_store)"
    by (simp add: reaches_services_def plain_demo_def store_defs)
  have vdb:
    "reaches_services ?v demo_key plain_store
       = Some (plain_demo, [Get_call GenAIDeploymentKind demo_key], plain_store) \<and>
     ?sais = (Inr None, fst (snd ?sais), snd (snd ?sais)) \<and>
     GetDeployment (Client ?v)
       (key_of (DeploymentMeta (constructVectorDbDeployment ?v plain_demo))) (snd (snd ?sais))
       = (Inl NotFound, snd (snd ?sais)) \<and>
     IsNotFound NotFound \<and>
     CreateDeployment (Client ?v) (constructVectorDbDeployment ?v plain_demo) (snd (snd ?sais))
       = (Some (Other ''quota exceeded''), snd (snd ?sais))"
    by (simp add: reaches_services_def plain_demo_def refusing_reconciler_def refuse_vectordb_def
          prod_eq_iff pass_defs store_defs)
  have c1: "Create (Client raced_reconciler) (DeploymentObject demo_sais) plain_store
              = (Some AlreadyExists, plain_store)"
    by (simp add: raced_reconciler_def)
  have c2: "Create (Client ?q) (DeploymentObject demo_sais) plain_store
              = (Some (Other ''quota exceeded''), plain_store)"
    by (simp add: refusing_reconciler_def refuse_all_def)
  have w1: "Reconcile ?q demo_key demo_store =
     (Inr (Some (Other ''quota exceeded'')),
      [Get_call GenAIDeploymentKind demo_key,
       Get_call RayClusterKind \<lparr>KeyNamespace = ''ns'', KeyName = ''x-raycluster''\<rparr>,
       Create_call (RayClusterObject (constructRayCluster ?q demo))],
      demo_store)"
    using create_failure_returned[THEN conjunct1, THEN mp, OF ray]
    by (simp add: demo_key_def)
  have w2: "fst (Reconcile raced_reconciler demo_key plain_store) =
              Inr (Some (Wrapped ''failed to create new Deployment'' AlreadyExists)) \<and>
            map call_verb (fst (snd (Reconcile raced_reconciler demo_key plain_store))) =
              [''get'', ''get'', ''create'']"
    using create_failure_returned[THEN conjunct2, THEN conjunct1, THEN mp, OF sais]
    by simp
  have calls: "map call_verb (fst (snd ?sais)) = [''get'', ''create'']"
    by (simp add: plain_demo_def refusing_reconciler_def refuse_vectordb_def pass_defs store_defs)
  have w3: "fst (Reconcile ?v demo_key plain_store) =
              Inr (Some (Wrapped ''failed to create new VectorDb Deployment'' (Other ''quota exceeded''))) \<and>
            map call_verb (fst (snd (Reconcile ?v demo_key plain_store))) =
              [''get'', ''get'', ''create'', ''get'', ''create'']"
    using create_failure_returned[THEN conjunct2, THEN conjunct2, THEN conjunct1, THEN mp, OF vdb]
      calls
    by simp
  have w4: "CreateResource (Client raced_reconciler) (DeploymentObject demo_sais) plain_store =
     (None, plain_store)"
    using create_failure_returned[THEN conjunct2, THEN conjunct2, THEN conjunct2, THEN mp, OF c1]
    by simp
  have w5: "CreateResource (Client ?q) (DeploymentObject demo_sais) plain_store =
     (Some (Other ''quota exceeded''), plain_store)"
    using create_failure_returned[THEN conjunct2, THEN conjunct2, THEN conjunct2, THEN mp, OF c2]
    by simp
  from w1 w2 w3 w4 w5 show ?thesis by simp
qed

subsection \<open>The compute cluster: update and ownership\<close>

lemma createOrUpdateRayCluster_existing:
  assumes "GetRayCluster (Client r)
             \<lparr>KeyNamespace = KeyNamespace req, KeyName = KeyName req @ ''-raycluster''\<rparr> s
           = (Inr rayCluster, s1)"
  shows "fst (snd (createOrUpdateRayCluster r req g s)) =
           [Get_call RayClusterKind
              \<lparr>KeyNamespace = KeyNamespace req, KeyName = KeyName req @ ''-raycluster''\<rparr>,
            Update_call (RayClusterObject rayCluster)]"
  using assms
  by (simp add: createOrUpdateRayCluster_def updateRayCluster_def Let_def split: prod.splits)

text \<open>
  Claim C2 does not hold of the code.  In the cluster the first pass of \<open>demo\<close> left, the
  stored compute cluster is equal to the one constructed from the descriptor, and the
  second pass still sends it as an update: the first three calls of that pass are the two
  gets and the update of the unchanged object.
\<close>

theorem ray_update_sent_when_equal:
  "rayClusters settled_store \<lparr>KeyNamespace = ''ns'', KeyName = ''x-raycluster''\<rparr> =
     Some (constructRayCluster store_reconciler demo) \<and>
   take 3 (fst (snd second_pass)) =
     [Get_call GenAIDeploymentKind demo_key,
      Get_call RayClusterKind \<lparr>KeyNamespace = ''ns'', KeyName = ''x-raycluster''\<rparr>,
      Update_call (RayClusterObject (constructRayCluster store_reconciler demo))]"
  by (simp add: pass_defs store_defs)

lemma constructRayCluster_no_owner:
  "OwnerReferences (RayMeta (constructRayCluster r g)) = []"
  by (simp add: constructRayCluster_def)

lemma constructSais_owner:
  assumes "GenAIDeploymentGVK (Scheme r) = Some (apiVersion, kind)"
  shows "OwnerReferences (DeploymentMeta (constructSaisServiceDeployment r g)) =
           [\<lparr>APIVersion = apiVersion, Kind = kind, RefName = Name (Meta g), RefUID = UID (Meta g),
             Controller = True, BlockOwnerDeletion = True\<rparr>]"
  using assms by (simp add: constructSaisServiceDeployment_def SetControllerReference_def Let_def)

lemma constructVectorDb_owner:
  assumes "GenAIDeploymentGVK (Scheme r) = Some (apiVersion, kind)"
  shows "OwnerReferences (DeploymentMeta (constructVectorDbDeployment r g)) =
           [\<lparr>APIVersion = apiVersion, Kind = kind, RefName = Name (Meta g), RefUID = UID (Meta g),
             Controller = True, BlockOwnerDeletion = True\<rparr>]"
  using assms by (simp add: constructVectorDbDeployment_def SetControllerReference_def Let_def)

text \<open>
  Claim C5 does not hold of the code.  The first pass of \<open>demo\<close> issues three creates; the
  compute cluster is created with no owner reference, the two deployments with a
  reference to the descriptor \<open>x\<close>.
\<close>

theorem raycluster_created_without_owner:
  "map created_owners
     (filter is_create (fst (snd (Reconcile store_reconciler demo_key demo_store)))) =
     [[], [''x''], [''x'']]"
  by (simp add: pass_defs store_defs)

subsection \<open>A second pass\<close>

text \<open>
  Claim C1 as stated fails: the first pass of \<open>demo\<close> succeeds, nothing changes, and the
  second pass issues four write calls, one update per managed resource and a status
  update.
\<close>

theorem second_pass_writes:
  "fst (Reconcile store_reconciler demo_key demo_store) = Inr None \<and>
   fst second_pass = Inr None \<and>
   map (\<lambda>c. (call_verb c, KeyName (call_key c))) (filter is_write (fst (snd second_pass))) =
     [(''update'', ''x-raycluster''), (''status-update'', ''x''),
      (''update'', ''x-sais-service''), (''update'', ''x-vectordb-service'')]"
  by (simp add: pass_defs store_defs is_write_def)

lemma store_reconcileDeployment:
  assumes "Client r = store_client" and "reconcileDeployment r d cell cm um s = (res, cs, s')"
  shows "genAIDeployments s' = genAIDeployments s \<and> rayClusters s' = rayClusters s \<and>
         (\<forall>k. deployments s k \<noteq> None \<longrightarrow> deployments s' k \<noteq> None) \<and>
         (res = Inr None \<longrightarrow> deployments s' (key_of (DeploymentMeta d)) \<noteq> None) \<and>
         (deployments s (key_of (DeploymentMeta d)) \<noteq> None \<longrightarrow> filter is_create cs = []) \<and>
         filter is_status_update cs = []"
  using assms
  by (auto simp: reconcileDeployment_def store_client_def store_get_def key_of_def Let_def
        IgnoreNotFound_def split: option.splits sum.splits bool.splits if_splits)

lemma store_createOrUpdateRayCluster:
  assumes "Client r = store_client" and "createOrUpdateRayCluster r req g s = (e, cs, rc, s')"
  shows "genAIDeployments s' = genAIDeployments s \<and> deployments s' = deployments s \<and>
         (e = None \<longrightarrow> key_of (Meta g) = req \<longrightarrow>
            (\<exists>rc'. rayClusters s' \<lparr>KeyNamespace = KeyNamespace req,
                                   KeyName = KeyName req @ ''-raycluster''\<rparr> = Some rc' \<and>
                   rayClusters s' (key_of (RayMeta rc')) \<noteq> None)) \<and>
         ((\<exists>rc'. rayClusters s \<lparr>KeyNamespace = KeyNamespace req,
                                 KeyName = KeyName req @ ''-raycluster''\<rparr> = Some rc' \<and>
                  rayClusters s (key_of (RayMeta rc')) \<noteq> None)
            \<longrightarrow> e = None \<and> filter is_create cs = []) \<and>
         filter is_status_update cs = []"
  using assms
  by (auto simp: createOrUpdateRayCluster_def updateRayCluster_def constructRayCluster_def
        store_client_def store_get_def key_of_def Let_def
        split: option.splits sum.splits if_splits)

lemma store_updateRayClusterStatus:
  assumes "Client r = store_client" and "updateRayClusterStatus r g rc s = (g', cs, s')"
  shows "rayClusters s' = rayClusters s \<and> deployments s' = deployments s \<and>
         Meta g' = Meta g \<and> GenAISpec g' = GenAISpec g \<and>
         (\<forall>k g0. genAIDeployments s k = Some g0 \<longrightarrow>
            (\<exists>g1. genAIDeployments s' k = Some g1 \<and> Meta g1 = Meta g0 \<and>
                  GenAISpec g1 = GenAISpec g0)) \<and>
         cs = [StatusUpdate_call g']"
  using assms
  by (auto simp: updateRayClusterStatus_def store_client_def Let_def split: option.splits)

lemma construct_cong:
  assumes "Meta g1 = Meta g" and "GenAISpec g1 = GenAISpec g"
  shows "constructSaisServiceDeployment r g1 = constructSaisServiceDeployment r g"
    and "constructVectorDbDeployment r g1 = constructVectorDbDeployment r g"
    and "constructRayCluster r g1 = constructRayCluster r g"
  unfolding constructSaisServiceDeployment_def constructVectorDbDeployment_def
        constructRayCluster_def SetControllerReference_def assms
  by (rule refl)+

lemma store_reconcileServices:
  assumes cl: "Client r = store_client" and run: "reconcileServices r g s = (res, cs, s')"
  shows "genAIDeployments s' = genAIDeployments s \<and> rayClusters s' = rayClusters s \<and>
         (\<forall>k. deployments s k \<noteq> None \<longrightarrow> deployments s' k \<noteq> None) \<and>
         (res = Inr None \<longrightarrow>
            deployments s' (key_of (DeploymentMeta (constructSaisServiceDeployment r g))) \<noteq> None \<and>
            deployments s' (key_of (DeploymentMeta (constructVectorDbDeployment r g))) \<noteq> None) \<and>
         (deployments s (key_of (DeploymentMeta (constructSaisServiceDeployment r g))) \<noteq> None \<and>
          deployments s (key_of (DeploymentMeta (constructVectorDbDeployment r g))) \<noteq> None
            \<longrightarrow> filter is_create cs = []) \<and>
         filter is_status_update cs = []"
proof -
  obtain res1 cs1 s1 where sais: "reconcileSaisServiceDeployment r g s = (res1, cs1, s1)"
    by (cases "reconcileSaisServiceDeployment r g s") auto
  obtain res2 cs2 s2 where vdb: "reconcileVectorDbDeployment r g s1 = (res2, cs2, s2)"
    by (cases "reconcileVectorDbDeployment r g s1") auto
  note a = store_reconcileDeployment[OF cl sais[unfolded reconcileSaisServiceDeployment_def]]
  note b = store_reconcileDeployment[OF cl vdb[unfolded reconcileVectorDbDeployment_def]]
  show ?thesis
  proof (cases "res1 = Inr None")
    case True
    with run sais vdb have "res = res2" "cs = cs1 @ cs2" "s' = s2"
      by (simp_all add: reconcileServices_def)
    with a b True show ?thesis by simp
  next
    case False
    with run sais have "res = res1" "cs = cs1" "s' = s1"
      by (auto simp: reconcileServices_def split: sum.splits option.splits)
    with a False show ?thesis by simp
  qed
qed

text \<open>What a successful pass leaves in a cluster with no other writer.\<close>

lemma store_Reconcile_post:
  assumes cl: "Client r = store_client"
    and stored: "genAIDeployments s req = Some g"
    and wf: "key_of (Meta g) = req"
    and run: "Reconcile r req s = (Inr None, cs, s')"
  shows "(\<exists>g1. genAIDeployments s' req = Some g1 \<and> Meta g1 = Meta g \<and>
               GenAISpec g1 = GenAISpec g) \<and>
         (Enabled (RayService (GenAISpec g)) \<longrightarrow>
            (\<exists>rc'. rayClusters s' \<lparr>KeyNamespace = KeyNamespace req,
                                   KeyName = KeyName req @ ''-raycluster''\<rparr> = Some rc' \<and>
                   rayClusters s' (key_of (RayMeta rc')) \<noteq> None)) \<and>
         deployments s' (key_of (DeploymentMeta (constructSaisServiceDeployment r g))) \<noteq> None \<and>
         deployments s' (key_of (DeploymentMeta (constructVectorDbDeployment r g))) \<noteq> None"
proof -
  have get: "GetGenAIDeployment (Client r) req s = (Inr g, s)"
    using cl stored by (simp add: store_client_def store_get_def)
  show ?thesis
  proof (cases "Enabled (RayService (GenAISpec g))")
    case False
    obtain res3 cs3 s4 where sv: "reconcileServices r g s = (res3, cs3, s4)"
      by (cases "reconcileServices r g s") auto
    with get False run have "res3 = Inr None" "s' = s4" by (simp_all add: Reconcile_def)
    with store_reconcileServices[OF cl sv] stored False show ?thesis by simp
  next
    case True
    obtain e cs1 rc s2 where cu: "createOrUpdateRayCluster r req g s = (e, cs1, rc, s2)"
      by (cases "createOrUpdateRayCluster r req g s") auto
    obtain g' cs2 s3 where st: "updateRayClusterStatus r g rc s2 = (g', cs2, s3)"
      by (cases "updateRayClusterStatus r g rc s2") auto
    obtain res3 cs3 s4 where sv: "reconcileServices r g' s3 = (res3, cs3, s4)"
      by (cases "reconcileServices r g' s3") auto
    from get True run cu have e: "e = None" by (cases e) (simp_all add: Reconcile_def)
    with get True run cu st sv have r3: "res3 = Inr None" "s' = s4"
      by (simp_all add: Reconcile_def)
    note A = store_createOrUpdateRayCluster[OF cl cu]
    note B = store_updateRayClusterStatus[OF cl st]
    note C = store_reconcileServices[OF cl sv]
    from B have same: "Meta g' = Meta g" "GenAISpec g' = GenAISpec g" by simp_all
    from A stored have "genAIDeployments s2 req = Some g" by simp
    with B obtain g1 where g1: "genAIDeployments s3 req = Some g1" "Meta g1 = Meta g"
        "GenAISpec g1 = GenAISpec g"
      by blast
    with C r3 have d: "\<exists>g1. genAIDeployments s' req = Some g1 \<and> Meta g1 = Meta g \<and>
        GenAISpec g1 = GenAISpec g"
      by simp
    from A e wf B C r3
    have ray: "\<exists>rc'. rayClusters s' \<lparr>KeyNamespace = KeyNamespace req,
                                   KeyName = KeyName req @ ''-raycluster''\<rparr> = Some rc' \<and>
                   rayClusters s' (key_of (RayMeta rc')) \<noteq> None"
      by simp
    from C r3 construct_cong[OF same, of r]
    have deps: "deployments s' (key_of (DeploymentMeta (constructSaisServiceDeployment r g))) \<noteq> None \<and>
         deployments s' (key_of (DeploymentMeta (constructVectorDbDeployment r g))) \<noteq> None"
      by simp
    from d ray deps show ?thesis by simp
  qed
qed

text \<open>A pass over a cluster that holds all the managed resources of the descriptor.\<close>

lemma store_Reconcile_settled:
  assumes cl: "Client r = store_client"
    and stored: "genAIDeployments s req = Some g"
    and ray: "Enabled (RayService (GenAISpec g)) \<Longrightarrow>
            (\<exists>rc'. rayClusters s \<lparr>KeyNamespace = KeyNamespace req,
                                  KeyName = KeyName req @ ''-raycluster''\<rparr> = Some rc' \<and>
                   rayClusters s (key_of (RayMeta rc')) \<noteq> None)"
    and sais: "deployments s (key_of (DeploymentMeta (constructSaisServiceDeployment r g))) \<noteq> None"
    and vdb: "deployments s (key_of (DeploymentMeta (constructVectorDbDeployment r g))) \<noteq> None"
  shows "filter is_create (fst (snd (Reconcile r req s))) = [] \<and>
         length (filter is_status_update (fst (snd (Reconcile r req s)))) =
           (if Enabled (RayService (GenAISpec g)) then 1 else 0)"
proof -
  have get: "GetGenAIDeployment (Client r) req s = (Inr g, s)"
    using cl stored by (simp add: store_client_def store_get_def)
  show ?thesis
  proof (cases "Enabled (RayService (GenAISpec g))")
    case False
    obtain res3 cs3 s4 where sv: "reconcileServices r g s = (res3, cs3, s4)"
      by (cases "reconcileServices r g s") auto
    with get False have "fst (snd (Reconcile r req s)) = Get_call GenAIDeploymentKind req # cs3"
      by (simp add: Reconcile_def)
    with store_reconcileServices[OF cl sv] sais vdb False show ?thesis by simp
  next
    case True
    obtain e cs1 rc s2 where cu: "createOrUpdateRayCluster r req g s = (e, cs1, rc, s2)"
      by (cases "createOrUpdateRayCluster r req g s") auto
    obtain g' cs2 s3 where st: "updateRayClusterStatus r g rc s2 = (g', cs2, s3)"
      by (cases "updateRayClusterStatus r g rc s2") auto
    obtain res3 cs3 s4 where sv: "reconcileServices r g' s3 = (res3, cs3, s4)"
      by (cases "reconcileServices r g' s3") auto
    note A = store_createOrUpdateRayCluster[OF cl cu]
    note B = store_updateRayClusterStatus[OF cl st]
    note C = store_reconcileServices[OF cl sv]
    from A ray[OF True] have e: "e = None"
      and c1: "filter is_create cs1 = []" "filter is_status_update cs1 = []"
      by simp_all
    from get True cu e st sv
    have calls: "fst (snd (Reconcile r req s)) = Get_call GenAIDeploymentKind req # cs1 @ cs2 @ cs3"
      by (simp add: Reconcile_def)
    from B have same: "Meta g' = Meta g" "GenAISpec g' = GenAISpec g"
      and c2: "cs2 = [StatusUpdate_call g']"
      by simp_all
    from A B sais vdb construct_cong[OF same, of r]
    have "deployments s3 (key_of (DeploymentMeta (constructSaisServiceDeployment r g'))) \<noteq> None"
         "deployments s3 (key_of (DeploymentMeta (constructVectorDbDeployment r g'))) \<noteq> None"
      by simp_all
    with C have c3: "filter is_create cs3 = []" "filter is_status_update cs3 = []" by simp_all
    from calls c1 c2 c3 True show ?thesis by simp
  qed
qed

text \<open>
  Claim C1, amended.  In a cluster with no other writer, where the descriptor is stored
  under its own namespace and name, a pass that follows a successful pass issues no
  create call.  It is not free of writes: it issues one status update when the
  compute-cluster sub-spec is enabled and none otherwise (also none when there is no
  descriptor).  Nothing is said here about update calls.
\<close>

theorem second_pass_no_create:
  assumes cl: "Client r = store_client"
    and wf: "\<And>g. genAIDeployments s0 req = Some g \<Longrightarrow> key_of (Meta g) = req"
    and p1: "Reconcile r req s0 = (Inr None, cs1, s1)"
  shows "filter is_create (fst (snd (Reconcile r req s1))) = [] \<and>
         length (filter is_status_update (fst (snd (Reconcile r req s1)))) =
           (case genAIDeployments s0 req of
              None \<Rightarrow> 0
            | Some g \<Rightarrow> if Enabled (RayService (GenAISpec g)) then 1 else 0)"
proof (cases "genAIDeployments s0 req")
  case None
  with cl have get: "GetGenAIDeployment (Client r) req s0 = (Inl NotFound, s0)"
    by (simp add: store_client_def store_get_def)
  with p1 have "s1 = s0" by (simp add: Reconcile_def)
  with get None show ?thesis by (simp add: Reconcile_def)
next
  case (Some g)
  note post = store_Reconcile_post[OF cl Some wf[OF Some] p1]
  then obtain g1 where g1: "genAIDeployments s1 req = Some g1" "Meta g1 = Meta g"
      "GenAISpec g1 = GenAISpec g"
    by blast
  have "filter is_create (fst (snd (Reconcile r req s1))) = [] \<and>
         length (filter is_status_update (fst (snd (Reconcile r req s1)))) =
           (if Enabled (RayService (GenAISpec g1)) then 1 else 0)"
    using post g1 construct_cong[OF g1(2,3), of r]
    by (intro store_Reconcile_settled[OF cl g1(1)]) simp_all
  with Some g1 show ?thesis by simp
qed

text \<open>
  Claim C1, witness: the two passes of \<open>demo\<close>, compute cluster enabled.  The second pass
  creates nothing and sends one status update.
\<close>

theorem second_pass_no_create_witness:
  "fst (Reconcile store_reconciler demo_key demo_store) = Inr None \<and>
   filter is_create (fst (snd second_pass)) = [] \<and>
   length (filter is_status_update (fst (snd second_pass))) = 1"
proof -
  let ?run = "Reconcile store_reconciler demo_key demo_store"
  have cl: "Client store_reconciler = store_client"
    by (simp add: store_reconciler_def)
  have wf: "key_of (Meta g) = demo_key" if "genAIDeployments demo_store demo_key = Some g" for g
    using that by (auto simp: demo_store_def demo_def demo_key_def key_of_def)
  have ok: "fst ?run = Inr None"
    by (simp add: pass_defs store_defs)
  then have p1: "?run = (Inr None, fst (snd ?run), settled_store)"
    by (simp add: settled_store_def prod_eq_iff)
  have en: "genAIDeployments demo_store demo_key = Some demo" "Enabled (RayService (GenAISpec demo))"
    by (simp_all add: demo_store_def demo_def)
  from second_pass_no_create[OF cl wf p1] ok en
  show ?thesis
    by (simp add: second_pass_def)
qed

end
